theory Spec2Isabelle
  imports Complex_Main
begin

section \<open>Values of the real-estate backend\<close>

text \<open>
  The backend stores money in \<open>Float\<close> columns. Money is modelled by exact rationals:
  the rounding of IEEE doubles is not part of the model, the control flow around the
  arithmetic is. A nullable column or an \<open>Optional\<close> schema field is an \<open>option\<close>,
  with \<open>None\<close> for Python's \<open>None\<close> and SQL's \<open>NULL\<close>.

  A \<open>datetime\<close> is the number of microseconds since 0001-01-01T00:00:00, the first
  instant Python's \<open>datetime\<close> can represent.
\<close>

type_synonym money = rat
type_synonym datetime = int

datatype error =
    HTTPException nat string
  | TypeError
  | AttributeError
  | OverflowError

datatype DealStatus = PENDING | APPROVED | REJECTED | CLOSED

text \<open>
  \<open>PropertyStatus\<close> is a \<open>str\<close>-mixin enumeration; \<open>update_deal_status\<close> assigns the
  plain string \<open>"sold"\<close>, so a property status is kept as the string it is.
\<close>

type_synonym PropertyStatus = string

definition PropertyStatus_AVAILABLE :: PropertyStatus where
  "PropertyStatus_AVAILABLE = ''available''"

text \<open>Python truthiness of an optional float: \<open>None\<close> and \<open>0.0\<close> are false.\<close>

definition truthy :: "money option \<Rightarrow> bool" where
  "truthy v = (case v of None \<Rightarrow> False | Some x \<Rightarrow> x \<noteq> 0)"

text \<open>
  Python's binary \<open>-\<close> and \<open>*\<close> on optional floats: an operand that is \<open>None\<close> raises
  \<open>TypeError\<close> (unsupported operand type).
\<close>

definition py_sub :: "money option \<Rightarrow> money option \<Rightarrow> error + money" where
  "py_sub a b =
     (case a of
        None \<Rightarrow> Inl TypeError
      | Some x \<Rightarrow> (case b of None \<Rightarrow> Inl TypeError | Some y \<Rightarrow> Inr (x - y)))"

definition py_mul :: "money option \<Rightarrow> money option \<Rightarrow> error + money" where
  "py_mul a b =
     (case a of
        None \<Rightarrow> Inl TypeError
      | Some x \<Rightarrow> (case b of None \<Rightarrow> Inl TypeError | Some y \<Rightarrow> Inr (x * y)))"

section \<open>The deal financial calculation\<close>

text \<open>
  \<open>create_deal\<close>, lines 29 to 34 of \<open>routers/deals.py\<close>:
  \<^verbatim>\<open>
    if property.arv and deal.offer_price:
        wholesale_fee = property.arv * 0.10  # 10% wholesale fee
        net_profit = wholesale_fee - (deal.offer_price - property.purchase_price)
    else:
        wholesale_fee = None
        net_profit = None
  \<close>
  The arguments are the property's \<open>arv\<close>, the property's \<open>purchase_price\<close> and the
  deal's \<open>offer_price\<close>; the result is \<open>(wholesale_fee, net_profit)\<close>, or the exception
  the block raises. The inner difference is evaluated before the outer one.
\<close>

definition deal_financials ::
  "money option \<Rightarrow> money option \<Rightarrow> money option \<Rightarrow> error + (money option \<times> money option)"
where
  "deal_financials arv purchase_price offer_price =
     (if truthy arv \<and> truthy offer_price then
        (case py_mul arv (Some (1 / 10)) of
           Inl e \<Rightarrow> Inl e
         | Inr wholesale_fee \<Rightarrow>
             (case py_sub offer_price purchase_price of
                Inl e \<Rightarrow> Inl e
              | Inr spread \<Rightarrow>
                  (case py_sub (Some wholesale_fee) (Some spread) of
                     Inl e \<Rightarrow> Inl e
                   | Inr net_profit \<Rightarrow> Inr (Some wholesale_fee, Some net_profit))))
      else Inr (None, None))"

section \<open>Rows, schemas and the store\<close>

text \<open>
  The columns of \<open>models.py\<close> that the deal and dashboard handlers read or write. Every
  column but a primary key is nullable. A \<open>Deal\<close> object has no \<open>id\<close> before it is
  flushed, so \<open>Deal_id\<close> is optional; \<open>updated_at\<close>, which the database maintains on
  its own, is left out.
\<close>

datatype LeadStatus = NEW | CONTACTED | INTERESTED | NOT_INTERESTED | CONVERTED

record User =
  User_id :: int

record Property =
  Property_id :: int
  Property_arv :: "money option"
  Property_purchase_price :: "money option"
  Property_status :: "PropertyStatus option"
  Property_sold_date :: "datetime option"

record Lead =
  Lead_id :: int
  Lead_status :: "LeadStatus option"

record Deal =
  Deal_id :: "int option"
  Deal_property_id :: "int option"
  Deal_lead_id :: "int option"
  Deal_agent_id :: "int option"
  Deal_status :: "DealStatus option"
  Deal_offer_price :: "money option"
  Deal_closing_date :: "datetime option"
  Deal_wholesale_fee :: "money option"
  Deal_net_profit :: "money option"
  Deal_notes :: "string option"
  Deal_created_at :: "datetime option"

text \<open>The store behind a \<open>Session\<close>: one list of rows per table.\<close>

record database =
  db_properties :: "Property list"
  db_leads :: "Lead list"
  db_deals :: "Deal list"

text \<open>\<open>Query.first()\<close>: the first row of the result, or \<open>None\<close>.\<close>

definition query_first :: "'a list \<Rightarrow> 'a option" where
  "query_first rows = (case rows of [] \<Rightarrow> None | r # _ \<Rightarrow> Some r)"

text \<open>
  The many-to-one relationship \<open>Deal.property\<close>: the property row whose primary key is
  the deal's \<open>property_id\<close>, or \<open>None\<close>.
\<close>

definition Deal_property :: "database \<Rightarrow> Deal \<Rightarrow> Property option" where
  "Deal_property db d =
     (case Deal_property_id d of
        None \<Rightarrow> None
      | Some pid \<Rightarrow> query_first (filter (\<lambda>p. Property_id p = pid) (db_properties db)))"

subsection \<open>Dynamic values, dictionaries and attribute assignment\<close>

text \<open>
  A pydantic model's \<open>dict()\<close> is a dictionary from field names to Python values, kept
  as an association list in field order.
\<close>

datatype pyval =
    VNone
  | VInt int
  | VFloat money
  | VStr string
  | VDatetime datetime
  | VDealStatus DealStatus

type_synonym pydict = "(string \<times> pyval) list"

definition opt_val :: "('a \<Rightarrow> pyval) \<Rightarrow> 'a option \<Rightarrow> pyval" where
  "opt_val con v = (case v of None \<Rightarrow> VNone | Some x \<Rightarrow> con x)"

fun as_int :: "pyval \<Rightarrow> int option" where
  "as_int (VInt n) = Some n"
| "as_int _ = None"

fun as_float :: "pyval \<Rightarrow> money option" where
  "as_float (VFloat x) = Some x"
| "as_float _ = None"

fun as_str :: "pyval \<Rightarrow> string option" where
  "as_str (VStr s) = Some s"
| "as_str _ = None"

fun as_datetime :: "pyval \<Rightarrow> datetime option" where
  "as_datetime (VDatetime t) = Some t"
| "as_datetime _ = None"

fun as_status :: "pyval \<Rightarrow> DealStatus option" where
  "as_status (VDealStatus s) = Some s"
| "as_status _ = None"

text \<open>
  \<open>setattr(db_deal, field, value)\<close> on a \<open>Deal\<close>. The values come from schema
  dictionaries, so each has the type of its column or is \<open>None\<close>. A name that is no
  column of the record leaves the columns as they are.
\<close>

definition setattr_Deal :: "string \<Rightarrow> pyval \<Rightarrow> Deal \<Rightarrow> Deal" where
  "setattr_Deal field v d =
     (if field = ''id'' then d\<lparr>Deal_id := as_int v\<rparr>
      else if field = ''property_id'' then d\<lparr>Deal_property_id := as_int v\<rparr>
      else if field = ''lead_id'' then d\<lparr>Deal_lead_id := as_int v\<rparr>
      else if field = ''agent_id'' then d\<lparr>Deal_agent_id := as_int v\<rparr>
      else if field = ''status'' then d\<lparr>Deal_status := as_status v\<rparr>
      else if field = ''offer_price'' then d\<lparr>Deal_offer_price := as_float v\<rparr>
      else if field = ''closing_date'' then d\<lparr>Deal_closing_date := as_datetime v\<rparr>
      else if field = ''wholesale_fee'' then d\<lparr>Deal_wholesale_fee := as_float v\<rparr>
      else if field = ''net_profit'' then d\<lparr>Deal_net_profit := as_float v\<rparr>
      else if field = ''notes'' then d\<lparr>Deal_notes := as_str v\<rparr>
      else if field = ''created_at'' then d\<lparr>Deal_created_at := as_datetime v\<rparr>
      else d)"

text \<open>\<open>for field, value in items: setattr(db_deal, field, value)\<close>.\<close>

definition setattrs_Deal :: "pydict \<Rightarrow> Deal \<Rightarrow> Deal" where
  "setattrs_Deal items d = fold (\<lambda>(field, v). setattr_Deal field v) items d"

subsection \<open>The schemas \<open>DealCreate\<close> and \<open>DealUpdate\<close>\<close>

text \<open>
  \<open>DealCreate\<close> is \<open>DealBase\<close> (\<open>schemas.py\<close>, lines 136 to 143) with \<open>agent_id\<close>
  (lines 145 and 146). Its \<open>dict()\<close> lists every field, set or defaulted.
\<close>

record DealCreate =
  DealCreate_property_id :: int
  DealCreate_lead_id :: int
  DealCreate_offer_price :: money
  DealCreate_closing_date :: "datetime option"
  DealCreate_wholesale_fee :: "money option"
  DealCreate_net_profit :: "money option"
  DealCreate_notes :: "string option"
  DealCreate_agent_id :: int

definition DealCreate_dict :: "DealCreate \<Rightarrow> pydict" where
  "DealCreate_dict deal =
     [(''property_id'', VInt (DealCreate_property_id deal)),
      (''lead_id'', VInt (DealCreate_lead_id deal)),
      (''offer_price'', VFloat (DealCreate_offer_price deal)),
      (''closing_date'', opt_val VDatetime (DealCreate_closing_date deal)),
      (''wholesale_fee'', opt_val VFloat (DealCreate_wholesale_fee deal)),
      (''net_profit'', opt_val VFloat (DealCreate_net_profit deal)),
      (''notes'', opt_val VStr (DealCreate_notes deal)),
      (''agent_id'', VInt (DealCreate_agent_id deal))]"

text \<open>
  A call \<open>f(**mapping, k1=v1, ...)\<close>: Python raises \<open>TypeError\<close> (multiple values for a
  keyword argument) when a keyword is also a key of the unpacked mapping; otherwise the
  callee receives both.
\<close>

definition call_kwargs :: "pydict \<Rightarrow> pydict \<Rightarrow> error + pydict" where
  "call_kwargs unpacked keywords =
     (if list_ex (\<lambda>k. k \<in> set (map fst unpacked)) (map fst keywords)
      then Inl TypeError
      else Inr (unpacked @ keywords))"

text \<open>
  The constructor the declarative base gives \<open>Deal\<close>: a keyword that is no attribute of
  the class raises \<open>TypeError\<close>, every other one is assigned. Attributes that are not
  assigned are \<open>None\<close>.
\<close>

definition Deal_attributes :: "string list" where
  "Deal_attributes =
     [''id'', ''property_id'', ''lead_id'', ''agent_id'', ''status'', ''offer_price'',
      ''closing_date'', ''wholesale_fee'', ''net_profit'', ''notes'', ''created_at'',
      ''updated_at'', ''agent'', ''property'', ''lead'']"

definition Deal_blank :: Deal where
  "Deal_blank =
     \<lparr>Deal_id = None, Deal_property_id = None, Deal_lead_id = None, Deal_agent_id = None,
      Deal_status = None, Deal_offer_price = None, Deal_closing_date = None,
      Deal_wholesale_fee = None, Deal_net_profit = None, Deal_notes = None,
      Deal_created_at = None\<rparr>"

definition Deal_init :: "pydict \<Rightarrow> error + Deal" where
  "Deal_init kwargs =
     (if list_all (\<lambda>k. k \<in> set Deal_attributes) (map fst kwargs)
      then Inr (setattrs_Deal kwargs Deal_blank)
      else Inl TypeError)"

text \<open>
  \<open>db.add(db_deal); db.commit(); db.refresh(db_deal)\<close>: the row is inserted with the
  next primary key, the column default \<open>pending\<close> for a status that was not assigned and
  the server default \<open>now()\<close> for \<open>created_at\<close>.
\<close>

definition next_Deal_id :: "database \<Rightarrow> int" where
  "next_Deal_id db =
     fold (\<lambda>d m. case Deal_id d of None \<Rightarrow> m | Some i \<Rightarrow> max i m) (db_deals db) 0 + 1"

definition add_commit_refresh :: "datetime \<Rightarrow> database \<Rightarrow> Deal \<Rightarrow> Deal \<times> database" where
  "add_commit_refresh now db db_deal =
     (let row = db_deal
            \<lparr>Deal_id := Some (next_Deal_id db),
             Deal_status := (case Deal_status db_deal of None \<Rightarrow> Some PENDING | Some s \<Rightarrow> Some s),
             Deal_created_at :=
               (case Deal_created_at db_deal of None \<Rightarrow> Some now | Some t \<Rightarrow> Some t)\<rparr>
      in (row, db\<lparr>db_deals := db_deals db @ [row]\<rparr>))"

section \<open>Creating a deal\<close>

text \<open>
  \<open>create_deal\<close> (\<open>routers/deals.py\<close>, lines 13 to 45). The handler returns the created
  row or raises; an exception leaves the store as it was, since nothing has been added
  or committed when it is raised. \<open>deal.offer_price\<close> is a required float.
\<close>

definition create_deal ::
  "datetime \<Rightarrow> database \<Rightarrow> DealCreate \<Rightarrow> User \<Rightarrow> (error + Deal) \<times> database"
where
  "create_deal now db deal current_user =
     (case query_first
             (filter (\<lambda>p. Property_id p = DealCreate_property_id deal) (db_properties db)) of
        None \<Rightarrow> (Inl (HTTPException 404 ''Property not found''), db)
      | Some property \<Rightarrow>
          (case query_first
                  (filter (\<lambda>l. Lead_id l = DealCreate_lead_id deal) (db_leads db)) of
             None \<Rightarrow> (Inl (HTTPException 404 ''Lead not found''), db)
           | Some lead \<Rightarrow>
               (case deal_financials (Property_arv property) (Property_purchase_price property)
                       (Some (DealCreate_offer_price deal)) of
                  Inl e \<Rightarrow> (Inl e, db)
                | Inr (wholesale_fee, net_profit) \<Rightarrow>
                    (case call_kwargs (DealCreate_dict deal)
                            [(''agent_id'', VInt (User_id current_user)),
                             (''wholesale_fee'', opt_val VFloat wholesale_fee),
                             (''net_profit'', opt_val VFloat net_profit)] of
                       Inl e \<Rightarrow> (Inl e, db)
                     | Inr kwargs \<Rightarrow>
                         (case Deal_init kwargs of
                            Inl e \<Rightarrow> (Inl e, db)
                          | Inr db_deal \<Rightarrow>
                              (let (row, db') = add_commit_refresh now db db_deal
                               in (Inr row, db')))))))"

section \<open>Updating a deal\<close>

text \<open>
  \<open>DealUpdate\<close> (\<open>schemas.py\<close>, lines 148 to 154): every field is optional and
  defaults to \<open>None\<close>. pydantic records which fields the request supplied;
  \<open>dict(exclude_unset=True)\<close> keeps exactly those, also when the supplied value is
  \<open>None\<close>.
\<close>

record DealUpdate =
  DealUpdate_offer_price :: "money option"
  DealUpdate_status :: "DealStatus option"
  DealUpdate_closing_date :: "datetime option"
  DealUpdate_wholesale_fee :: "money option"
  DealUpdate_net_profit :: "money option"
  DealUpdate_notes :: "string option"
  DealUpdate_fields_set :: "string set"

definition DealUpdate_dict_exclude_unset :: "DealUpdate \<Rightarrow> pydict" where
  "DealUpdate_dict_exclude_unset u =
     filter (\<lambda>(field, v). field \<in> DealUpdate_fields_set u)
       [(''offer_price'', opt_val VFloat (DealUpdate_offer_price u)),
        (''status'', opt_val VDealStatus (DealUpdate_status u)),
        (''closing_date'', opt_val VDatetime (DealUpdate_closing_date u)),
        (''wholesale_fee'', opt_val VFloat (DealUpdate_wholesale_fee u)),
        (''net_profit'', opt_val VFloat (DealUpdate_net_profit u)),
        (''notes'', opt_val VStr (DealUpdate_notes u))]"

text \<open>
  \<open>db.commit(); db.refresh(db_deal)\<close> after the object loaded for \<open>deal_id\<close> was
  changed: the row with that primary key is written.
\<close>

definition commit_Deal :: "database \<Rightarrow> int \<Rightarrow> Deal \<Rightarrow> database" where
  "commit_Deal db deal_id row =
     db\<lparr>db_deals := map (\<lambda>d. if Deal_id d = Some deal_id then row else d) (db_deals db)\<rparr>"

text \<open>
  \<open>update_deal\<close> (\<open>routers/deals.py\<close>, lines 78 to 100). \<open>db_deal.property\<close> is read
  only when \<open>'offer_price' in update_data\<close> holds (\<open>and\<close> short-circuits); reading
  \<open>.arv\<close> of a missing property raises \<open>AttributeError\<close>. Lines 95 and 96 assign the fee
  first and compute the profit from the assigned fee and the deal's offer price after
  the patch.
\<close>

definition update_deal ::
  "database \<Rightarrow> int \<Rightarrow> DealUpdate \<Rightarrow> (error + Deal) \<times> database"
where
  "update_deal db deal_id deal_update =
     (case query_first (filter (\<lambda>d. Deal_id d = Some deal_id) (db_deals db)) of
        None \<Rightarrow> (Inl (HTTPException 404 ''Deal not found''), db)
      | Some loaded \<Rightarrow>
          (let update_data = DealUpdate_dict_exclude_unset deal_update;
               db_deal = setattrs_Deal update_data loaded
           in if ''offer_price'' \<in> set (map fst update_data) then
                (case Deal_property db db_deal of
                   None \<Rightarrow> (Inl AttributeError, db)
                 | Some property \<Rightarrow>
                     if truthy (Property_arv property) then
                       (case py_mul (Property_arv property) (Some (1 / 10)) of
                          Inl e \<Rightarrow> (Inl e, db)
                        | Inr fee \<Rightarrow>
                            (let with_fee = db_deal\<lparr>Deal_wholesale_fee := Some fee\<rparr>
                             in case py_sub (Deal_offer_price with_fee)
                                       (Property_purchase_price property) of
                                  Inl e \<Rightarrow> (Inl e, db)
                                | Inr spread \<Rightarrow>
                                    (case py_sub (Deal_wholesale_fee with_fee) (Some spread) of
                                       Inl e \<Rightarrow> (Inl e, db)
                                     | Inr profit \<Rightarrow>
                                         (let row = with_fee\<lparr>Deal_net_profit := Some profit\<rparr>
                                          in (Inr row, commit_Deal db deal_id row)))))
                     else (Inr db_deal, commit_Deal db deal_id db_deal))
              else (Inr db_deal, commit_Deal db deal_id db_deal)))"

section \<open>Changing a deal's status\<close>

text \<open>
  \<open>update_deal_status\<close> (\<open>routers/deals.py\<close>, lines 116 to 136). \<open>now\<close> is the reading
  of \<open>datetime.utcnow()\<close> on line 132. The handler returns a message; the model returns
  \<open>()\<close> for it. Closing writes the linked property's row as well.
\<close>

definition update_deal_status ::
  "datetime \<Rightarrow> database \<Rightarrow> int \<Rightarrow> DealStatus \<Rightarrow> (error + unit) \<times> database"
where
  "update_deal_status now db deal_id status =
     (case query_first (filter (\<lambda>d. Deal_id d = Some deal_id) (db_deals db)) of
        None \<Rightarrow> (Inl (HTTPException 404 ''Deal not found''), db)
      | Some loaded \<Rightarrow>
          (let db_deal = loaded\<lparr>Deal_status := Some status\<rparr>
           in if status = CLOSED then
                (case Deal_property db db_deal of
                   None \<Rightarrow> (Inl AttributeError, db)
                 | Some property \<Rightarrow>
                     (let sold = property\<lparr>Property_status := Some ''sold'',
                                          Property_sold_date := Some now\<rparr>
                      in (Inr (),
                          (commit_Deal db deal_id db_deal)
                            \<lparr>db_properties :=
                               map (\<lambda>p. if Property_id p = Property_id property then sold else p)
                                 (db_properties db)\<rparr>)))
              else (Inr (), commit_Deal db deal_id db_deal)))"

section \<open>Aggregate reporting\<close>

subsection \<open>SQL aggregates and Python dates\<close>

text \<open>
  \<open>func.sum\<close> skips \<open>NULL\<close>s and is \<open>NULL\<close> when no value is left; \<open>scalar()\<close> then
  returns \<open>None\<close>. The handlers write \<open>... .scalar() or 0\<close>, which replaces a false
  value (\<open>None\<close> or zero) by \<open>0\<close>.
\<close>

primrec non_null :: "'a option list \<Rightarrow> 'a list" where
  "non_null [] = []"
| "non_null (v # vs) = (case v of None \<Rightarrow> non_null vs | Some x \<Rightarrow> x # non_null vs)"

definition sql_sum :: "money option list \<Rightarrow> money option" where
  "sql_sum vs = (case non_null vs of [] \<Rightarrow> None | x # xs \<Rightarrow> Some (sum_list (x # xs)))"

definition scalar_or_0 :: "money option \<Rightarrow> money" where
  "scalar_or_0 r = (case r of None \<Rightarrow> 0 | Some x \<Rightarrow> if x \<noteq> 0 then x else 0)"

text \<open>
  \<open>timedelta(days=n)\<close> raises \<open>OverflowError\<close> beyond 999999999 days. A \<open>datetime\<close>
  minus a \<open>timedelta\<close> raises \<open>OverflowError\<close> when the result leaves the years 1 to
  9999 (the ordinals 1 to 3652059).
\<close>

definition microseconds_per_day :: int where
  "microseconds_per_day = 86400000000"

definition datetime_end :: int where
  "datetime_end = 3652059 * microseconds_per_day"

definition timedelta_days :: "int \<Rightarrow> error + int" where
  "timedelta_days n =
     (if \<bar>n\<bar> > 999999999 then Inl OverflowError else Inr (n * microseconds_per_day))"

definition datetime_sub :: "datetime \<Rightarrow> int \<Rightarrow> error + datetime" where
  "datetime_sub t delta =
     (let r = t - delta
      in if 0 \<le> r \<and> r < datetime_end then Inr r else Inl OverflowError)"

text \<open>\<open>t - timedelta(days=n)\<close>.\<close>

definition days_before :: "datetime \<Rightarrow> int \<Rightarrow> error + datetime" where
  "days_before t n =
     (case timedelta_days n of Inl e \<Rightarrow> Inl e | Inr delta \<Rightarrow> datetime_sub t delta)"

text \<open>
  The filters of the revenue queries. A comparison with \<open>NULL\<close> is not true in SQL, so
  a deal without status or without \<open>created_at\<close> matches none of them.
\<close>

definition is_closed :: "Deal \<Rightarrow> bool" where
  "is_closed d = (Deal_status d = Some CLOSED)"

definition created_since :: "datetime \<Rightarrow> Deal \<Rightarrow> bool" where
  "created_since start d =
     (case Deal_created_at d of None \<Rightarrow> False | Some t \<Rightarrow> start \<le> t)"

definition created_before :: "datetime \<Rightarrow> Deal \<Rightarrow> bool" where
  "created_before end_date d =
     (case Deal_created_at d of None \<Rightarrow> False | Some t \<Rightarrow> t < end_date)"

subsection \<open>The monthly revenue series\<close>

text \<open>
  \<open>get_monthly_revenue\<close> (\<open>routers/dashboard.py\<close>, lines 120 to 143). Each iteration
  reads the clock twice: \<open>utcnow k\<close> is the reading of the \<open>k\<close>-th call of
  \<open>datetime.utcnow()\<close> in the request, so iteration \<open>i\<close> uses the readings \<open>2 * i\<close> and
  \<open>2 * i + 1\<close>. \<open>strftime\<close> stands for \<open>strftime("%Y-%m")\<close> of the standard library.
\<close>

record MonthlyRevenue =
  month :: string
  revenue :: money

fun monthly_revenue_loop ::
  "(datetime \<Rightarrow> string) \<Rightarrow> (nat \<Rightarrow> datetime) \<Rightarrow> database \<Rightarrow> nat list \<Rightarrow>
   MonthlyRevenue list \<Rightarrow> error + MonthlyRevenue list"
where
  "monthly_revenue_loop strftime utcnow db [] monthly_data = Inr monthly_data"
| "monthly_revenue_loop strftime utcnow db (i # rest) monthly_data =
     (case days_before (utcnow (2 * i)) (30 * (int i + 1)) of
        Inl e \<Rightarrow> Inl e
      | Inr start_date \<Rightarrow>
          (case days_before (utcnow (2 * i + 1)) (30 * int i) of
             Inl e \<Rightarrow> Inl e
           | Inr end_date \<Rightarrow>
               (let revenue =
                      scalar_or_0
                        (sql_sum
                           (map Deal_net_profit
                              (filter
                                 (\<lambda>d. is_closed d \<and> created_since start_date d \<and>
                                      created_before end_date d)
                                 (db_deals db))))
                in monthly_revenue_loop strftime utcnow db rest
                     (monthly_data @ [\<lparr>month = strftime start_date, revenue = revenue\<rparr>]))))"

definition get_monthly_revenue ::
  "(datetime \<Rightarrow> string) \<Rightarrow> (nat \<Rightarrow> datetime) \<Rightarrow> database \<Rightarrow> int \<Rightarrow>
   (error + MonthlyRevenue list) \<times> database"
where
  "get_monthly_revenue strftime utcnow db months =
     (case monthly_revenue_loop strftime utcnow db [0..<nat months] [] of
        Inl e \<Rightarrow> (Inl e, db)
      | Inr monthly_data \<Rightarrow> (Inr (rev monthly_data), db))"

subsection \<open>Summaries\<close>

text \<open>
  \<open>get_deals_analytics\<close> (\<open>routers/deals.py\<close>, lines 138 to 169) and
  \<open>get_dashboard_stats\<close> (\<open>routers/dashboard.py\<close>, lines 12 to 56). \<open>now\<close> is the one
  reading of the clock each of them takes. \<open>dict(deals_by_status)\<close> is a dictionary
  from the statuses that occur to their counts.
\<close>

definition total_revenue_query :: "database \<Rightarrow> money" where
  "total_revenue_query db =
     scalar_or_0 (sql_sum (map Deal_net_profit (filter is_closed (db_deals db))))"

definition revenue_since_query :: "database \<Rightarrow> datetime \<Rightarrow> money" where
  "revenue_since_query db start =
     scalar_or_0
       (sql_sum
          (map Deal_net_profit
             (filter (\<lambda>d. is_closed d \<and> created_since start d) (db_deals db))))"

record DealsAnalytics =
  DealsAnalytics_total_deals :: nat
  DealsAnalytics_deals_by_status :: "DealStatus option \<Rightarrow> nat option"
  DealsAnalytics_total_revenue :: money
  DealsAnalytics_monthly_revenue :: money

definition count_Deal_id :: "Deal list \<Rightarrow> nat" where
  "count_Deal_id rows = length (filter (\<lambda>d. Deal_id d \<noteq> None) rows)"

definition get_deals_analytics ::
  "datetime \<Rightarrow> database \<Rightarrow> (error + DealsAnalytics) \<times> database"
where
  "get_deals_analytics now db =
     (let total_deals = count_Deal_id (db_deals db);
          deals_by_status =
            (\<lambda>s. if s \<in> set (map Deal_status (db_deals db))
                 then Some (count_Deal_id (filter (\<lambda>d. Deal_status d = s) (db_deals db)))
                 else None);
          total_revenue = total_revenue_query db
      in case days_before now 30 of
           Inl e \<Rightarrow> (Inl e, db)
         | Inr thirty_days_ago \<Rightarrow>
             (Inr \<lparr>DealsAnalytics_total_deals = total_deals,
                   DealsAnalytics_deals_by_status = deals_by_status,
                   DealsAnalytics_total_revenue = total_revenue,
                   DealsAnalytics_monthly_revenue = revenue_since_query db thirty_days_ago\<rparr>,
              db))"

record DashboardStats =
  DashboardStats_total_properties :: nat
  DashboardStats_available_properties :: nat
  DashboardStats_total_leads :: nat
  DashboardStats_new_leads :: nat
  DashboardStats_total_deals :: nat
  DashboardStats_pending_deals :: nat
  DashboardStats_total_revenue :: money
  DashboardStats_monthly_revenue :: money

definition get_dashboard_stats ::
  "datetime \<Rightarrow> database \<Rightarrow> (error + DashboardStats) \<times> database"
where
  "get_dashboard_stats now db =
     (let total_properties = length (db_properties db);
          available_properties =
            length (filter (\<lambda>p. Property_status p = Some PropertyStatus_AVAILABLE)
                      (db_properties db));
          total_leads = length (db_leads db);
          new_leads = length (filter (\<lambda>l. Lead_status l = Some NEW) (db_leads db));
          total_deals = count_Deal_id (db_deals db);
          pending_deals =
            count_Deal_id (filter (\<lambda>d. Deal_status d = Some PENDING) (db_deals db));
          total_revenue = total_revenue_query db
      in case days_before now 30 of
           Inl e \<Rightarrow> (Inl e, db)
         | Inr thirty_days_ago \<Rightarrow>
             (Inr \<lparr>DashboardStats_total_properties = total_properties,
                   DashboardStats_available_properties = available_properties,
                   DashboardStats_total_leads = total_leads,
                   DashboardStats_new_leads = new_leads,
                   DashboardStats_total_deals = total_deals,
                   DashboardStats_pending_deals = pending_deals,
                   DashboardStats_total_revenue = total_revenue,
                   DashboardStats_monthly_revenue = revenue_since_query db thirty_days_ago\<rparr>,
              db))"

subsection \<open>The standard library's year and month\<close>

text \<open>
  \<open>strftime("%Y-%m")\<close> after \<open>datetime.py\<close> of the standard library: \<open>_ord2ymd\<close>
  turns the proleptic Gregorian ordinal of a day into its year and month. CPython on
  glibc prints the year without padding (\<open>999-12\<close>, so four digits from the year 1000
  on) and the month with two digits. The handlers take the formatter as a parameter;
  this one instantiates it.
\<close>

definition DAYS_BEFORE_MONTH :: "int list" where
  "DAYS_BEFORE_MONTH = [-1, 0, 31, 59, 90, 120, 151, 181, 212, 243, 273, 304, 334]"

definition ord2ym :: "int \<Rightarrow> int \<times> int" where
  "ord2ym ordinal =
     (let n = ordinal - 1;
          n400 = n div 146097; n = n mod 146097;
          n100 = n div 36524; n = n mod 36524;
          n4 = n div 1461; n = n mod 1461;
          n1 = n div 365; n = n mod 365;
          year = n400 * 400 + 1 + (n100 * 100 + n4 * 4 + n1)
      in if n1 = 4 \<or> n100 = 4 then (year - 1, 12)
         else
           (let leapyear = (n1 = 3 \<and> (n4 \<noteq> 24 \<or> n100 = 3));
                month = (n + 50) div 32;
                preceding =
                  DAYS_BEFORE_MONTH ! nat month + (if month > 2 \<and> leapyear then 1 else 0)
            in if preceding > n then (year, month - 1) else (year, month)))"

definition decimal_digit :: "int \<Rightarrow> char" where
  "decimal_digit d = ''0123456789'' ! nat (d mod 10)"

definition strftime_Ym :: "datetime \<Rightarrow> string" where
  "strftime_Ym t =
     (let (year, month) = ord2ym (t div microseconds_per_day + 1)
      in dropWhile (\<lambda>c. c = CHR ''0'')
           [decimal_digit (year div 1000), decimal_digit (year div 100),
            decimal_digit (year div 10)] @
         [decimal_digit year, CHR ''-'', decimal_digit (month div 10), decimal_digit month])"

section \<open>Error kinds and sample data\<close>

text \<open>
  The specification's \<open>NotFound\<close> is the \<open>HTTPException\<close> with status code 404 that
  the handlers raise for an id without a row.
\<close>

definition NotFound :: "error + 'a \<Rightarrow> bool" where
  "NotFound r = (case r of Inl (HTTPException code detail) \<Rightarrow> code = 404 | _ \<Rightarrow> False)"

text \<open>
  A small store on which the theorems below are instantiated: one property, one lead
  and one pending deal between them, at midnight of 2026-11-03 (ordinal 739923).
\<close>

definition sample_now :: datetime where
  "sample_now = 739922 * microseconds_per_day"

definition sample_clock :: "nat \<Rightarrow> datetime" where
  "sample_clock k = sample_now"

definition sample_property :: Property where
  "sample_property =
     \<lparr>Property_id = 1, Property_arv = Some 200000, Property_purchase_price = Some 120000,
      Property_status = Some PropertyStatus_AVAILABLE, Property_sold_date = None\<rparr>"

definition sample_lead :: Lead where
  "sample_lead = \<lparr>Lead_id = 1, Lead_status = Some NEW\<rparr>"

definition sample_deal :: Deal where
  "sample_deal =
     \<lparr>Deal_id = Some 1, Deal_property_id = Some 1, Deal_lead_id = Some 1,
      Deal_agent_id = Some 1, Deal_status = Some PENDING, Deal_offer_price = Some 140000,
      Deal_closing_date = None, Deal_wholesale_fee = Some 20000, Deal_net_profit = Some 0,
      Deal_notes = None, Deal_created_at = Some (sample_now - 10 * microseconds_per_day)\<rparr>"

definition sample_db :: database where
  "sample_db =
     \<lparr>db_properties = [sample_property], db_leads = [sample_lead], db_deals = [sample_deal]\<rparr>"

text \<open>The same store after a second deal was closed with a profit of 15000.\<close>

definition sample_closed_deal :: Deal where
  "sample_closed_deal =
     \<lparr>Deal_id = Some 2, Deal_property_id = Some 1, Deal_lead_id = Some 1,
      Deal_agent_id = Some 1, Deal_status = Some CLOSED, Deal_offer_price = Some 125000,
      Deal_closing_date = None, Deal_wholesale_fee = Some 20000,
      Deal_net_profit = Some 15000, Deal_notes = None,
      Deal_created_at = Some (sample_now - 10 * microseconds_per_day)\<rparr>"

definition sample_closed_db :: database where
  "sample_closed_db = sample_db\<lparr>db_deals := [sample_deal, sample_closed_deal]\<rparr>"

text \<open>
  A clock that advances by one microsecond from one reading to the next, and a store
  whose only deal was closed one microsecond less than 30 days before the first reading.
\<close>

definition sample_ticking_clock :: "nat \<Rightarrow> datetime" where
  "sample_ticking_clock k = sample_now + int k"

definition sample_overlap_deal :: Deal where
  "sample_overlap_deal =
     \<lparr>Deal_id = Some 3, Deal_property_id = Some 1, Deal_lead_id = Some 1,
      Deal_agent_id = Some 1, Deal_status = Some CLOSED, Deal_offer_price = Some 125000,
      Deal_closing_date = None, Deal_wholesale_fee = Some 20000,
      Deal_net_profit = Some 15000, Deal_notes = None,
      Deal_created_at = Some (sample_now - 30 * microseconds_per_day + 1)\<rparr>"

definition sample_overlap_db :: database where
  "sample_overlap_db = sample_db\<lparr>db_deals := [sample_overlap_deal]\<rparr>"

definition sample_user :: User where
  "sample_user = \<lparr>User_id = 1\<rparr>"

definition sample_create :: DealCreate where
  "sample_create =
     \<lparr>DealCreate_property_id = 1, DealCreate_lead_id = 1, DealCreate_offer_price = 140000,
      DealCreate_closing_date = None, DealCreate_wholesale_fee = None,
      DealCreate_net_profit = None, DealCreate_notes = None, DealCreate_agent_id = 1\<rparr>"

text \<open>A patch that supplies only \<open>offer_price\<close>, and one that supplies only \<open>status\<close>.\<close>

definition sample_offer_patch :: DealUpdate where
  "sample_offer_patch =
     \<lparr>DealUpdate_offer_price = Some 150000, DealUpdate_status = None,
      DealUpdate_closing_date = None, DealUpdate_wholesale_fee = None,
      DealUpdate_net_profit = None, DealUpdate_notes = None,
      DealUpdate_fields_set = {''offer_price''}\<rparr>"

definition sample_close_patch :: DealUpdate where
  "sample_close_patch =
     \<lparr>DealUpdate_offer_price = None, DealUpdate_status = Some CLOSED,
      DealUpdate_closing_date = None, DealUpdate_wholesale_fee = None,
      DealUpdate_net_profit = None, DealUpdate_notes = None,
      DealUpdate_fields_set = {''status''}\<rparr>"

section \<open>Properties of the financial calculation\<close>

lemma truthy_simps:
  "truthy None = False"
  "truthy (Some x) = (x \<noteq> 0)"
  by (simp_all add: truthy_def)

lemma deal_financials_falsy:
  "\<not> truthy arv \<or> \<not> truthy offer \<Longrightarrow> deal_financials arv pp offer = Inr (None, None)"
  by (auto simp: deal_financials_def)

lemma deal_financials_known:
  "a \<noteq> 0 \<Longrightarrow> o' \<noteq> 0 \<Longrightarrow>
   deal_financials (Some a) (Some p) (Some o') =
     Inr (Some (a * (1 / 10)), Some (a * (1 / 10) - (o' - p)))"
  by (simp add: deal_financials_def truthy_def py_mul_def py_sub_def)

lemma deal_financials_no_purchase_price:
  "a \<noteq> 0 \<Longrightarrow> o' \<noteq> 0 \<Longrightarrow> deal_financials (Some a) None (Some o') = Inl TypeError"
  by (simp add: deal_financials_def truthy_def py_mul_def py_sub_def)

text \<open>
  C1, as the specification states it, fails where the after-repair value or the offer
  price is present and zero: the guard of line 29 tests truthiness, so the result is
  \<open>(None, None)\<close> and not the fee \<open>0 * 0.10\<close> with the profit \<open>0 - (50 - 100)\<close>.
\<close>

theorem deal_financials_zero_arv_counterexample:
  "deal_financials (Some 0) (Some 100) (Some 50) = Inr (None, None) \<and>
   deal_financials (Some 0) (Some 100) (Some 50) \<noteq>
     Inr (Some (0 * (1 / 10)), Some (0 * (1 / 10) - (50 - 100)))"
  by (simp add: deal_financials_def truthy_def)

text \<open>
  C1 (amended): if the after-repair value is null or zero, or the offer price is null or
  zero, the calculation returns \<open>(null, null)\<close>; if both are present and nonzero and the
  purchase price is present, the wholesale fee is \<open>arv * 0.10\<close> and the net profit is
  \<open>wholesale_fee - (offer_price - purchase_price)\<close>. In particular
  \<open>(200000, 120000, 140000)\<close> gives \<open>(20000, 0)\<close> and \<open>(300000, 150000, 160000)\<close> gives
  \<open>(30000, 20000)\<close>.
\<close>

theorem deal_financials_spec:
  "(arv = None \<or> arv = Some 0 \<or> offer = None \<or> offer = Some 0 \<longrightarrow>
      deal_financials arv pp offer = Inr (None, None)) \<and>
   (a \<noteq> 0 \<and> o' \<noteq> 0 \<longrightarrow>
      deal_financials (Some a) (Some p) (Some o') =
        Inr (Some (a * (1 / 10)), Some (a * (1 / 10) - (o' - p)))) \<and>
   deal_financials (Some 200000) (Some 120000) (Some 140000) = Inr (Some 20000, Some 0) \<and>
   deal_financials (Some 300000) (Some 150000) (Some 160000) = Inr (Some 30000, Some 20000)"
proof -
  have null_case: "arv = None \<or> arv = Some 0 \<or> offer = None \<or> offer = Some 0 \<longrightarrow>
      deal_financials arv pp offer = Inr (None, None)"
    by (auto simp: truthy_simps intro!: deal_financials_falsy)
  have known_case: "a \<noteq> 0 \<and> o' \<noteq> 0 \<longrightarrow>
      deal_financials (Some a) (Some p) (Some o') =
        Inr (Some (a * (1 / 10)), Some (a * (1 / 10) - (o' - p)))"
    by (simp add: deal_financials_known)
  have ex1: "deal_financials (Some 200000) (Some 120000) (Some 140000) = Inr (Some 20000, Some 0)"
    by (simp add: deal_financials_known)
  have ex2: "deal_financials (Some 300000) (Some 150000) (Some 160000) = Inr (Some 30000, Some 20000)"
    by (simp add: deal_financials_known)
  from null_case known_case ex1 ex2 show ?thesis by blast
qed

theorem deal_financials_spec_witness:
  "deal_financials None (Some 120000) (Some 140000) = Inr (None, None) \<and>
   deal_financials (Some 250000) (Some 100000) (Some 110000) = Inr (Some 25000, Some 15000)"
  using deal_financials_spec [of None "Some 140000" "Some 120000" 250000 110000 100000]
  by simp

text \<open>
  C2: the calculation is not total. With the after-repair value and the offer price
  present and the purchase price null, line 31 subtracts \<open>None\<close> from a float and raises
  \<open>TypeError\<close>; no null result is produced.
\<close>

theorem deal_financials_null_purchase_price_raises:
  "deal_financials (Some 200000) None (Some 140000) = Inl TypeError"
  by (simp add: deal_financials_no_purchase_price)

section \<open>Properties of deal creation\<close>

lemma query_first_filter_None:
  "query_first (filter P rows) = None \<longleftrightarrow> (\<forall>r \<in> set rows. \<not> P r)"
  by (cases "filter P rows") (auto simp: query_first_def filter_empty_conv filter_eq_Cons_iff)

lemma call_kwargs_duplicate:
  "call_kwargs (DealCreate_dict deal)
     [(''agent_id'', a), (''wholesale_fee'', w), (''net_profit'', n)] = Inl TypeError"
  by (simp add: call_kwargs_def DealCreate_dict_def)

lemma create_deal_raises:
  "\<exists>e. create_deal now db deal u = (Inl e, db)"
  by (auto simp: create_deal_def call_kwargs_duplicate split: option.splits sum.splits prod.splits)

lemma create_deal_found:
  "query_first (filter (\<lambda>p. Property_id p = DealCreate_property_id deal) (db_properties db)) = Some p \<Longrightarrow>
   query_first (filter (\<lambda>l. Lead_id l = DealCreate_lead_id deal) (db_leads db)) = Some l \<Longrightarrow>
   create_deal now db deal u = (Inl TypeError, db)"
  apply (simp add: create_deal_def call_kwargs_duplicate split: sum.splits prod.splits)
  apply (auto simp: deal_financials_def py_sub_def py_mul_def split: if_splits option.splits sum.splits)
  done

lemma create_deal_no_property:
  "query_first (filter (\<lambda>p. Property_id p = DealCreate_property_id deal) (db_properties db)) = None \<Longrightarrow>
   create_deal now db deal u = (Inl (HTTPException 404 ''Property not found''), db)"
  by (simp add: create_deal_def)

lemma create_deal_no_lead:
  "query_first (filter (\<lambda>p. Property_id p = DealCreate_property_id deal) (db_properties db)) = Some p \<Longrightarrow>
   query_first (filter (\<lambda>l. Lead_id l = DealCreate_lead_id deal) (db_leads db)) = None \<Longrightarrow>
   create_deal now db deal u = (Inl (HTTPException 404 ''Lead not found''), db)"
  by (simp add: create_deal_def)

text \<open>
  C3: \<open>create_deal\<close> never completes. \<open>deal.dict()\<close> already has the keys
  \<open>agent_id\<close>, \<open>wholesale_fee\<close> and \<open>net_profit\<close>, so the call
  \<open>Deal(**deal.dict(), agent_id=..., wholesale_fee=..., net_profit=...)\<close> raises
  \<open>TypeError\<close> for duplicate keyword arguments; for every input the handler ends in an
  exception and the store is as it was, with no deal inserted.
\<close>

theorem create_deal_never_succeeds:
  "call_kwargs (DealCreate_dict deal)
     [(''agent_id'', VInt (User_id current_user)),
      (''wholesale_fee'', opt_val VFloat wholesale_fee),
      (''net_profit'', opt_val VFloat net_profit)] = Inl TypeError \<and>
   (\<exists>e. create_deal now db deal current_user = (Inl e, db))"
  by (simp add: call_kwargs_duplicate create_deal_raises)

text \<open>
  C8: deal creation fails with \<open>NotFound\<close> exactly when the referenced property id or
  the referenced lead id has no row in the store, and no deal is inserted; when both
  exist, creation passes the referential check (and then fails in the constructor call,
  not with \<open>NotFound\<close>).
\<close>

theorem create_deal_not_found_iff:
  "(NotFound (fst (create_deal now db deal current_user)) \<longleftrightarrow>
      (DealCreate_property_id deal \<notin> set (map Property_id (db_properties db)) \<or>
       DealCreate_lead_id deal \<notin> set (map Lead_id (db_leads db)))) \<and>
   snd (create_deal now db deal current_user) = db \<and>
   (DealCreate_property_id deal \<in> set (map Property_id (db_properties db)) \<and>
    DealCreate_lead_id deal \<in> set (map Lead_id (db_leads db)) \<longrightarrow>
      fst (create_deal now db deal current_user) = Inl TypeError)"
proof -
  let ?P = "query_first (filter (\<lambda>p. Property_id p = DealCreate_property_id deal) (db_properties db))"
  let ?L = "query_first (filter (\<lambda>l. Lead_id l = DealCreate_lead_id deal) (db_leads db))"
  have P_None: "?P = None \<longleftrightarrow> DealCreate_property_id deal \<notin> set (map Property_id (db_properties db))"
    by (force simp: query_first_filter_None)
  have L_None: "?L = None \<longleftrightarrow> DealCreate_lead_id deal \<notin> set (map Lead_id (db_leads db))"
    by (force simp: query_first_filter_None)
  have store: "snd (create_deal now db deal current_user) = db"
    using create_deal_raises [of now db deal current_user] by auto
  show ?thesis
  proof (cases ?P)
    case None
    with P_None store show ?thesis
      by (simp add: create_deal_no_property NotFound_def)
  next
    case (Some p)
    note P = this
    show ?thesis
    proof (cases ?L)
      case None
      with P P_None L_None store show ?thesis
        by (simp add: create_deal_no_lead NotFound_def)
    next
      case (Some l)
      with P P_None L_None store show ?thesis
        by (simp add: create_deal_found NotFound_def)
    qed
  qed
qed

theorem create_deal_not_found_iff_witness:
  "fst (create_deal sample_now sample_db sample_create sample_user) = Inl TypeError \<and>
   snd (create_deal sample_now sample_db sample_create sample_user) = sample_db \<and>
   NotFound (fst (create_deal sample_now sample_db
                    (sample_create\<lparr>DealCreate_lead_id := 7\<rparr>) sample_user))"
  using create_deal_not_found_iff [of sample_now sample_db sample_create sample_user]
    create_deal_not_found_iff [of sample_now sample_db "sample_create\<lparr>DealCreate_lead_id := 7\<rparr>" sample_user]
  by (simp add: sample_db_def sample_create_def sample_property_def sample_lead_def)

section \<open>Properties of the deal updates\<close>

lemma as_opt_val:
  "as_float (opt_val VFloat x) = x"
  "as_status (opt_val VDealStatus s) = s"
  "as_datetime (opt_val VDatetime t) = t"
  "as_str (opt_val VStr n) = n"
  by (simp_all add: opt_val_def split: option.splits)

lemma fold_filter_cond:
  "fold f (filter P xs) = fold (\<lambda>x. if P x then f x else id) xs"
  by (induction xs) auto

lemma setattrs_patch:
  "setattrs_Deal (DealUpdate_dict_exclude_unset u) d =
     d\<lparr>Deal_offer_price :=
         (if ''offer_price'' \<in> DealUpdate_fields_set u then DealUpdate_offer_price u
          else Deal_offer_price d),
       Deal_status :=
         (if ''status'' \<in> DealUpdate_fields_set u then DealUpdate_status u else Deal_status d),
       Deal_closing_date :=
         (if ''closing_date'' \<in> DealUpdate_fields_set u then DealUpdate_closing_date u
          else Deal_closing_date d),
       Deal_wholesale_fee :=
         (if ''wholesale_fee'' \<in> DealUpdate_fields_set u then DealUpdate_wholesale_fee u
          else Deal_wholesale_fee d),
       Deal_net_profit :=
         (if ''net_profit'' \<in> DealUpdate_fields_set u then DealUpdate_net_profit u
          else Deal_net_profit d),
       Deal_notes :=
         (if ''notes'' \<in> DealUpdate_fields_set u then DealUpdate_notes u else Deal_notes d)\<rparr>"
  by (simp add: setattrs_Deal_def DealUpdate_dict_exclude_unset_def fold_filter_cond
      setattr_Deal_def as_opt_val)

lemma offer_price_in_update_data:
  "''offer_price'' \<in> set (map fst (DealUpdate_dict_exclude_unset u)) \<longleftrightarrow>
   ''offer_price'' \<in> DealUpdate_fields_set u"
  by (auto simp: DealUpdate_dict_exclude_unset_def)

lemma patched_fields:
  "Deal_property_id (setattrs_Deal (DealUpdate_dict_exclude_unset u) d) = Deal_property_id d"
  "Deal_offer_price (setattrs_Deal (DealUpdate_dict_exclude_unset u) d) =
     (if ''offer_price'' \<in> DealUpdate_fields_set u then DealUpdate_offer_price u
      else Deal_offer_price d)"
  "Deal_wholesale_fee (setattrs_Deal (DealUpdate_dict_exclude_unset u) d) =
     (if ''wholesale_fee'' \<in> DealUpdate_fields_set u then DealUpdate_wholesale_fee u
      else Deal_wholesale_fee d)"
  "Deal_net_profit (setattrs_Deal (DealUpdate_dict_exclude_unset u) d) =
     (if ''net_profit'' \<in> DealUpdate_fields_set u then DealUpdate_net_profit u
      else Deal_net_profit d)"
  "Deal_status (setattrs_Deal (DealUpdate_dict_exclude_unset u) d) =
     (if ''status'' \<in> DealUpdate_fields_set u then DealUpdate_status u else Deal_status d)"
  by (simp_all add: setattrs_patch)

lemma Deal_property_patched:
  "Deal_property db (setattrs_Deal (DealUpdate_dict_exclude_unset u) d) = Deal_property db d"
  by (simp add: Deal_property_def patched_fields)

lemma update_deal_plain:
  assumes "query_first (filter (\<lambda>x. Deal_id x = Some deal_id) (db_deals db)) = Some d"
    and "''offer_price'' \<notin> DealUpdate_fields_set u \<or>
         (\<exists>p. Deal_property db d = Some p \<and> \<not> truthy (Property_arv p))"
  shows "update_deal db deal_id u =
     (Inr (setattrs_Deal (DealUpdate_dict_exclude_unset u) d),
      commit_Deal db deal_id (setattrs_Deal (DealUpdate_dict_exclude_unset u) d))"
  using assms
  by (auto simp: update_deal_def Let_def offer_price_in_update_data Deal_property_patched
      simp del: set_map)

lemma update_deal_recomputed:
  assumes "query_first (filter (\<lambda>x. Deal_id x = Some deal_id) (db_deals db)) = Some d"
    and "''offer_price'' \<in> DealUpdate_fields_set u"
    and "Deal_property db d = Some p"
    and "Property_arv p = Some a" and "a \<noteq> 0"
    and "DealUpdate_offer_price u = Some o'"
    and "Property_purchase_price p = Some pp"
  shows "update_deal db deal_id u =
     (Inr ((setattrs_Deal (DealUpdate_dict_exclude_unset u) d)
             \<lparr>Deal_wholesale_fee := Some (a * (1 / 10)),
              Deal_net_profit := Some (a * (1 / 10) - (o' - pp))\<rparr>),
      commit_Deal db deal_id
        ((setattrs_Deal (DealUpdate_dict_exclude_unset u) d)
             \<lparr>Deal_wholesale_fee := Some (a * (1 / 10)),
              Deal_net_profit := Some (a * (1 / 10) - (o' - pp))\<rparr>))"
  using assms
  by (simp add: update_deal_def Let_def offer_price_in_update_data Deal_property_patched
      truthy_def py_mul_def py_sub_def patched_fields del: set_map)

lemma update_deal_properties:
  "db_properties (snd (update_deal db deal_id u)) = db_properties db"
  by (simp add: update_deal_def Let_def commit_Deal_def
      split: option.splits sum.splits)

lemma query_first_replace:
  assumes "query_first (filter P xs) = Some x" and "P y"
  shows "query_first (filter P (map (\<lambda>z. if P z then y else z) xs)) = Some y"
  using assms
proof (induction xs)
  case Nil
  then show ?case by (simp add: query_first_def)
next
  case (Cons z zs)
  then show ?case by (cases "P z") (simp_all add: query_first_def)
qed

lemma query_first_SomeD:
  "query_first (filter P rows) = Some r \<Longrightarrow> P r"
  by (cases "filter P rows") (auto simp: query_first_def filter_eq_Cons_iff)

lemma Deal_property_id_eq:
  "Deal_property db d = Some p \<Longrightarrow> Deal_property_id d = Some (Property_id p)"
  by (auto simp: Deal_property_def split: option.splits dest: query_first_SomeD)

lemma Deal_property_status_irrelevant:
  "Deal_property db (d\<lparr>Deal_status := s\<rparr>) = Deal_property db d"
  by (simp add: Deal_property_def)

lemma Deal_property_commit:
  "Deal_property (commit_Deal db deal_id row) d = Deal_property db d"
  by (simp add: Deal_property_def commit_Deal_def split: option.splits)

lemma update_deal_status_closed:
  assumes "query_first (filter (\<lambda>x. Deal_id x = Some deal_id) (db_deals db)) = Some d"
    and "Deal_property db d = Some p"
  shows "update_deal_status now db deal_id CLOSED =
     (Inr (),
      (commit_Deal db deal_id (d\<lparr>Deal_status := Some CLOSED\<rparr>))
        \<lparr>db_properties :=
           map (\<lambda>q. if Property_id q = Property_id p
                    then p\<lparr>Property_status := Some ''sold'', Property_sold_date := Some now\<rparr>
                    else q)
             (db_properties db)\<rparr>)"
  using assms
  by (simp add: update_deal_status_def Let_def Deal_property_status_irrelevant)

lemma update_deal_status_other:
  assumes "query_first (filter (\<lambda>x. Deal_id x = Some deal_id) (db_deals db)) = Some d"
    and "status \<noteq> CLOSED"
  shows "update_deal_status now db deal_id status =
     (Inr (), commit_Deal db deal_id (d\<lparr>Deal_status := Some status\<rparr>))"
  using assms by (simp add: update_deal_status_def Let_def)

lemma linked_property_replaced:
  assumes "Deal_property db d = Some p" and "Property_id sold = Property_id p"
    and "Deal_property_id d' = Deal_property_id d"
  shows "Deal_property
           (db'\<lparr>db_properties :=
                 map (\<lambda>q. if Property_id q = Property_id p then sold else q) (db_properties db)\<rparr>)
           d' = Some sold"
proof -
  from assms(1) have pid: "Deal_property_id d = Some (Property_id p)"
    by (rule Deal_property_id_eq)
  with assms(1) have first:
    "query_first (filter (\<lambda>q. Property_id q = Property_id p) (db_properties db)) = Some p"
    by (simp add: Deal_property_def)
  from query_first_replace [OF first, of sold] assms(2)
  have "query_first (filter (\<lambda>q. Property_id q = Property_id p)
          (map (\<lambda>q. if Property_id q = Property_id p then sold else q) (db_properties db))) =
        Some sold"
    by simp
  with pid assms(3) show ?thesis
    by (simp add: Deal_property_def)
qed

lemma deal_after_commit:
  assumes "query_first (filter (\<lambda>x. Deal_id x = Some deal_id) (db_deals db)) = Some d"
    and "Deal_id row = Some deal_id"
  shows "query_first (filter (\<lambda>x. Deal_id x = Some deal_id)
           (map (\<lambda>x. if Deal_id x = Some deal_id then row else x) (db_deals db))) = Some row"
  using query_first_replace [OF assms(1), of row] assms(2) by simp

lemma sold_never_reverted:
  "list_all2 (\<lambda>q q'. Property_status q = Some ''sold'' \<longrightarrow> Property_status q' = Some ''sold'')
     rows
     (map (\<lambda>q. if Property_id q = pid
              then p\<lparr>Property_status := Some ''sold'', Property_sold_date := Some now\<rparr>
              else q) rows)"
  by (induction rows) auto

text \<open>
  C5: for a deal of the store with a linked property, the status change to \<open>closed\<close>
  succeeds, writes the deal, and sets the linked property's status to \<open>"sold"\<close> and its
  \<open>sold_date\<close> to the current time, whatever the deal's and the property's state was
  before (so closing again keeps \<open>"sold"\<close> and stamps the date again). Any other new
  status leaves the whole property table as it was. Hence no status change turns a
  property that is \<open>"sold"\<close> into anything else.
\<close>

theorem update_deal_status_effect:
  assumes found: "query_first (filter (\<lambda>x. Deal_id x = Some deal_id) (db_deals db)) = Some d"
    and linked: "Deal_property db d = Some p"
  shows
    "fst (update_deal_status now db deal_id CLOSED) = Inr () \<and>
     query_first (filter (\<lambda>x. Deal_id x = Some deal_id)
       (db_deals (snd (update_deal_status now db deal_id CLOSED)))) =
       Some (d\<lparr>Deal_status := Some CLOSED\<rparr>) \<and>
     Deal_property (snd (update_deal_status now db deal_id CLOSED))
       (d\<lparr>Deal_status := Some CLOSED\<rparr>) =
       Some (p\<lparr>Property_status := Some ''sold'', Property_sold_date := Some now\<rparr>) \<and>
     (status \<noteq> CLOSED \<longrightarrow>
        fst (update_deal_status now db deal_id status) = Inr () \<and>
        db_properties (snd (update_deal_status now db deal_id status)) = db_properties db) \<and>
     list_all2
       (\<lambda>q q'. Property_status q = Some ''sold'' \<longrightarrow> Property_status q' = Some ''sold'')
       (db_properties db)
       (db_properties (snd (update_deal_status now db deal_id status)))"
proof -
  note closed = update_deal_status_closed [OF found linked, of now]
  from found have did: "Deal_id d = Some deal_id"
    by (rule query_first_SomeD)
  have ok: "fst (update_deal_status now db deal_id CLOSED) = Inr ()"
    by (simp add: closed)
  have deal: "query_first (filter (\<lambda>x. Deal_id x = Some deal_id)
       (db_deals (snd (update_deal_status now db deal_id CLOSED)))) =
       Some (d\<lparr>Deal_status := Some CLOSED\<rparr>)"
    using deal_after_commit [OF found, of "d\<lparr>Deal_status := Some CLOSED\<rparr>"] did
    by (simp add: closed commit_Deal_def)
  have after: "Deal_property (snd (update_deal_status now db deal_id CLOSED))
       (d\<lparr>Deal_status := Some CLOSED\<rparr>) =
       Some (p\<lparr>Property_status := Some ''sold'', Property_sold_date := Some now\<rparr>)"
    using linked_property_replaced [OF linked,
        of "p\<lparr>Property_status := Some ''sold'', Property_sold_date := Some now\<rparr>"
           "d\<lparr>Deal_status := Some CLOSED\<rparr>"]
    by (simp add: closed)
  have other: "status \<noteq> CLOSED \<longrightarrow>
        fst (update_deal_status now db deal_id status) = Inr () \<and>
        db_properties (snd (update_deal_status now db deal_id status)) = db_properties db"
    by (simp add: update_deal_status_other [OF found] commit_Deal_def)
  have kept: "list_all2
       (\<lambda>q q'. Property_status q = Some ''sold'' \<longrightarrow> Property_status q' = Some ''sold'')
       (db_properties db)
       (db_properties (snd (update_deal_status now db deal_id status)))"
  proof (cases "status = CLOSED")
    case True
    then show ?thesis
      by (simp add: closed commit_Deal_def sold_never_reverted)
  next
    case False
    then show ?thesis
      by (simp add: update_deal_status_other [OF found] commit_Deal_def list_all2_same)
  qed
  from ok deal after other kept show ?thesis by blast
qed

theorem update_deal_status_effect_witness:
  "fst (update_deal_status sample_now sample_db 1 CLOSED) = Inr () \<and>
   Deal_property (snd (update_deal_status sample_now sample_db 1 CLOSED))
     (sample_deal\<lparr>Deal_status := Some CLOSED\<rparr>) =
     Some (sample_property\<lparr>Property_status := Some ''sold'',
                            Property_sold_date := Some sample_now\<rparr>) \<and>
   db_properties (snd (update_deal_status sample_now sample_db 1 APPROVED)) =
     db_properties sample_db"
  using update_deal_status_effect [of 1 sample_db sample_deal sample_property sample_now APPROVED]
  by (simp add: sample_db_def sample_deal_def sample_property_def Deal_property_def
      query_first_def)

text \<open>
  C4, as the specification states it, fails on both halves. The sample deal carries a
  fee of 20000 and a profit of 0. With the linked property's after-repair value unknown,
  a patch of \<open>offer_price\<close> leaves both as they are, not null. With the after-repair
  value present and zero, the same patch does not recompute them either.
\<close>

theorem update_deal_stale_financials_counterexample:
  "fst (update_deal (sample_db\<lparr>db_properties := [sample_property\<lparr>Property_arv := None\<rparr>]\<rparr>)
          1 sample_offer_patch) =
     Inr (sample_deal\<lparr>Deal_offer_price := Some 150000\<rparr>) \<and>
   Deal_wholesale_fee (sample_deal\<lparr>Deal_offer_price := Some 150000\<rparr>) = Some 20000 \<and>
   Deal_net_profit (sample_deal\<lparr>Deal_offer_price := Some 150000\<rparr>) = Some 0 \<and>
   fst (update_deal (sample_db\<lparr>db_properties := [sample_property\<lparr>Property_arv := Some 0\<rparr>]\<rparr>)
          1 sample_offer_patch) =
     Inr (sample_deal\<lparr>Deal_offer_price := Some 150000\<rparr>)"
  by (simp add: update_deal_def Let_def sample_db_def sample_deal_def sample_property_def
      sample_offer_patch_def query_first_def Deal_property_def truthy_def
      DealUpdate_dict_exclude_unset_def setattrs_Deal_def setattr_Deal_def opt_val_def)

text \<open>
  C4 (amended): for a deal of the store with a linked property, a patch that supplies
  \<open>offer_price\<close> recomputes the financials from the linked property when its
  after-repair value is present and nonzero and the new offer price and the purchase
  price are present: \<open>wholesale_fee = arv * 0.10\<close> and
  \<open>net_profit = wholesale_fee - (offer_price - purchase_price)\<close>. When the after-repair
  value is null or zero, nothing is recomputed: \<open>wholesale_fee\<close> and \<open>net_profit\<close> are
  the patch's values where the patch supplies them and the stored values otherwise.
\<close>

theorem update_deal_offer_price_recomputes:
  assumes found: "query_first (filter (\<lambda>x. Deal_id x = Some deal_id) (db_deals db)) = Some d"
    and supplied: "''offer_price'' \<in> DealUpdate_fields_set u"
    and linked: "Deal_property db d = Some p"
  shows
    "(Property_arv p = Some a \<and> a \<noteq> 0 \<and> DealUpdate_offer_price u = Some o' \<and>
      Property_purchase_price p = Some pp \<longrightarrow>
        (\<exists>row. update_deal db deal_id u = (Inr row, commit_Deal db deal_id row) \<and>
               Deal_offer_price row = Some o' \<and>
               Deal_wholesale_fee row = Some (a * (1 / 10)) \<and>
               Deal_net_profit row = Some (a * (1 / 10) - (o' - pp)))) \<and>
     (Property_arv p = None \<or> Property_arv p = Some 0 \<longrightarrow>
        (\<exists>row. update_deal db deal_id u = (Inr row, commit_Deal db deal_id row) \<and>
               Deal_offer_price row = DealUpdate_offer_price u \<and>
               Deal_wholesale_fee row =
                 (if ''wholesale_fee'' \<in> DealUpdate_fields_set u
                  then DealUpdate_wholesale_fee u else Deal_wholesale_fee d) \<and>
               Deal_net_profit row =
                 (if ''net_profit'' \<in> DealUpdate_fields_set u
                  then DealUpdate_net_profit u else Deal_net_profit d)))"
proof (intro conjI impI)
  assume known: "Property_arv p = Some a \<and> a \<noteq> 0 \<and> DealUpdate_offer_price u = Some o' \<and>
      Property_purchase_price p = Some pp"
  then have "update_deal db deal_id u =
     (Inr ((setattrs_Deal (DealUpdate_dict_exclude_unset u) d)
             \<lparr>Deal_wholesale_fee := Some (a * (1 / 10)),
              Deal_net_profit := Some (a * (1 / 10) - (o' - pp))\<rparr>),
      commit_Deal db deal_id
        ((setattrs_Deal (DealUpdate_dict_exclude_unset u) d)
             \<lparr>Deal_wholesale_fee := Some (a * (1 / 10)),
              Deal_net_profit := Some (a * (1 / 10) - (o' - pp))\<rparr>))"
    using update_deal_recomputed [OF found supplied linked] by blast
  with known supplied
  show "\<exists>row. update_deal db deal_id u = (Inr row, commit_Deal db deal_id row) \<and>
               Deal_offer_price row = Some o' \<and>
               Deal_wholesale_fee row = Some (a * (1 / 10)) \<and>
               Deal_net_profit row = Some (a * (1 / 10) - (o' - pp))"
    by (simp add: patched_fields)
next
  assume "Property_arv p = None \<or> Property_arv p = Some 0"
  then have "\<not> truthy (Property_arv p)"
    by (auto simp: truthy_def)
  with linked have "update_deal db deal_id u =
     (Inr (setattrs_Deal (DealUpdate_dict_exclude_unset u) d),
      commit_Deal db deal_id (setattrs_Deal (DealUpdate_dict_exclude_unset u) d))"
    using update_deal_plain [OF found, of u] by blast
  with supplied
  show "\<exists>row. update_deal db deal_id u = (Inr row, commit_Deal db deal_id row) \<and>
               Deal_offer_price row = DealUpdate_offer_price u \<and>
               Deal_wholesale_fee row =
                 (if ''wholesale_fee'' \<in> DealUpdate_fields_set u
                  then DealUpdate_wholesale_fee u else Deal_wholesale_fee d) \<and>
               Deal_net_profit row =
                 (if ''net_profit'' \<in> DealUpdate_fields_set u
                  then DealUpdate_net_profit u else Deal_net_profit d)"
    by (simp add: patched_fields)
qed

theorem update_deal_offer_price_recomputes_witness:
  "(\<exists>row. update_deal sample_db 1 sample_offer_patch = (Inr row, commit_Deal sample_db 1 row) \<and>
          Deal_offer_price row = Some 150000 \<and>
          Deal_wholesale_fee row = Some 20000 \<and>
          Deal_net_profit row = Some (- 10000)) \<and>
   (\<exists>row. update_deal (sample_db\<lparr>db_properties := [sample_property\<lparr>Property_arv := None\<rparr>]\<rparr>)
            1 sample_offer_patch =
            (Inr row,
             commit_Deal (sample_db\<lparr>db_properties := [sample_property\<lparr>Property_arv := None\<rparr>]\<rparr>)
               1 row) \<and>
          Deal_offer_price row = Some 150000 \<and>
          Deal_wholesale_fee row = Some 20000 \<and>
          Deal_net_profit row = Some 0)"
  using update_deal_offer_price_recomputes
      [of 1 sample_db sample_deal sample_offer_patch sample_property 200000 150000 120000]
    update_deal_offer_price_recomputes
      [of 1 "sample_db\<lparr>db_properties := [sample_property\<lparr>Property_arv := None\<rparr>]\<rparr>"
          sample_deal sample_offer_patch "sample_property\<lparr>Property_arv := None\<rparr>" 1 1 1]
  by (simp add: sample_db_def sample_deal_def sample_property_def sample_offer_patch_def
      Deal_property_def query_first_def)

text \<open>
  C9: the guard tests truthiness. An after-repair value or an offer price that is
  present and zero gives \<open>(null, null)\<close>, the result for an unknown value; and a patch
  that supplies \<open>offer_price\<close> while the linked property's after-repair value is zero
  is applied without recomputation.
\<close>

theorem truthiness_guard:
  "(arv = Some 0 \<or> offer = Some 0 \<longrightarrow>
      deal_financials arv pp offer = Inr (None, None) \<and>
      deal_financials arv pp offer = deal_financials None pp offer) \<and>
   (query_first (filter (\<lambda>x. Deal_id x = Some deal_id) (db_deals db)) = Some d \<and>
    ''offer_price'' \<in> DealUpdate_fields_set u \<and>
    Deal_property db d = Some p \<and> Property_arv p = Some 0 \<longrightarrow>
      update_deal db deal_id u =
        (Inr (setattrs_Deal (DealUpdate_dict_exclude_unset u) d),
         commit_Deal db deal_id (setattrs_Deal (DealUpdate_dict_exclude_unset u) d)))"
proof (intro conjI impI)
  assume "arv = Some 0 \<or> offer = Some 0"
  then have "\<not> truthy arv \<or> \<not> truthy offer"
    by (auto simp: truthy_def)
  then show "deal_financials arv pp offer = Inr (None, None)"
    by (rule deal_financials_falsy)
  then show "deal_financials arv pp offer = deal_financials None pp offer"
    by (simp add: deal_financials_falsy truthy_def)
next
  assume h: "query_first (filter (\<lambda>x. Deal_id x = Some deal_id) (db_deals db)) = Some d \<and>
    ''offer_price'' \<in> DealUpdate_fields_set u \<and>
    Deal_property db d = Some p \<and> Property_arv p = Some 0"
  then have "\<exists>q. Deal_property db d = Some q \<and> \<not> truthy (Property_arv q)"
    by (auto simp: truthy_def)
  with h show "update_deal db deal_id u =
        (Inr (setattrs_Deal (DealUpdate_dict_exclude_unset u) d),
         commit_Deal db deal_id (setattrs_Deal (DealUpdate_dict_exclude_unset u) d))"
    using update_deal_plain [of deal_id db d u] by blast
qed

theorem truthiness_guard_witness:
  "deal_financials (Some 0) (Some 120000) (Some 140000) = Inr (None, None) \<and>
   deal_financials (Some 200000) (Some 120000) (Some 0) = Inr (None, None) \<and>
   update_deal (sample_db\<lparr>db_properties := [sample_property\<lparr>Property_arv := Some 0\<rparr>]\<rparr>)
     1 sample_offer_patch =
     (Inr (sample_deal\<lparr>Deal_offer_price := Some 150000\<rparr>),
      commit_Deal (sample_db\<lparr>db_properties := [sample_property\<lparr>Property_arv := Some 0\<rparr>]\<rparr>) 1
        (sample_deal\<lparr>Deal_offer_price := Some 150000\<rparr>))"
  using truthiness_guard [of "Some 0" "Some 140000" "Some 120000" 1
      "sample_db\<lparr>db_properties := [sample_property\<lparr>Property_arv := Some 0\<rparr>]\<rparr>"
      sample_deal sample_offer_patch "sample_property\<lparr>Property_arv := Some 0\<rparr>"]
    truthiness_guard [of "Some 200000" "Some 0" "Some 120000" 1
      "sample_db\<lparr>db_properties := [sample_property\<lparr>Property_arv := Some 0\<rparr>]\<rparr>"
      sample_deal sample_offer_patch "sample_property\<lparr>Property_arv := Some 0\<rparr>"]
  by (simp add: sample_db_def sample_deal_def sample_property_def sample_offer_patch_def
      Deal_property_def query_first_def setattrs_patch)

text \<open>
  C10: the generic patch never writes the property table, so closing a deal through it
  (a patch that supplies \<open>status = closed\<close>) changes the deal's status and leaves the
  linked property, with its status and \<open>sold_date\<close>, as it was. Only
  \<open>update_deal_status\<close> has the effect on the property.
\<close>

theorem update_deal_leaves_property:
  "db_properties (snd (update_deal db deal_id u)) = db_properties db \<and>
   (query_first (filter (\<lambda>x. Deal_id x = Some deal_id) (db_deals db)) = Some d \<and>
    ''status'' \<in> DealUpdate_fields_set u \<and> DealUpdate_status u = Some CLOSED \<and>
    ''offer_price'' \<notin> DealUpdate_fields_set u \<longrightarrow>
      (\<exists>row. update_deal db deal_id u = (Inr row, commit_Deal db deal_id row) \<and>
             Deal_status row = Some CLOSED \<and>
             Deal_property (snd (update_deal db deal_id u)) row = Deal_property db d))"
proof (intro conjI impI)
  show "db_properties (snd (update_deal db deal_id u)) = db_properties db"
    by (rule update_deal_properties)
next
  assume h: "query_first (filter (\<lambda>x. Deal_id x = Some deal_id) (db_deals db)) = Some d \<and>
    ''status'' \<in> DealUpdate_fields_set u \<and> DealUpdate_status u = Some CLOSED \<and>
    ''offer_price'' \<notin> DealUpdate_fields_set u"
  then have "update_deal db deal_id u =
        (Inr (setattrs_Deal (DealUpdate_dict_exclude_unset u) d),
         commit_Deal db deal_id (setattrs_Deal (DealUpdate_dict_exclude_unset u) d))"
    using update_deal_plain [of deal_id db d u] by blast
  with h show "\<exists>row. update_deal db deal_id u = (Inr row, commit_Deal db deal_id row) \<and>
             Deal_status row = Some CLOSED \<and>
             Deal_property (snd (update_deal db deal_id u)) row = Deal_property db d"
    by (simp add: patched_fields Deal_property_commit Deal_property_patched)
qed

theorem update_deal_leaves_property_witness:
  "query_first (filter (\<lambda>x. Deal_id x = Some 1) (db_deals sample_db)) = Some sample_deal \<and>
   ''status'' \<in> DealUpdate_fields_set sample_close_patch \<and>
   DealUpdate_status sample_close_patch = Some CLOSED \<and>
   ''offer_price'' \<notin> DealUpdate_fields_set sample_close_patch \<and>
   db_properties (snd (update_deal sample_db 1 sample_close_patch)) = db_properties sample_db \<and>
   (\<exists>row. update_deal sample_db 1 sample_close_patch = (Inr row, commit_Deal sample_db 1 row) \<and>
          Deal_status row = Some CLOSED \<and>
          Deal_property (snd (update_deal sample_db 1 sample_close_patch)) row =
            Deal_property sample_db sample_deal)"
proof -
  have sample:
    "query_first (filter (\<lambda>x. Deal_id x = Some 1) (db_deals sample_db)) = Some sample_deal \<and>
     ''status'' \<in> DealUpdate_fields_set sample_close_patch \<and>
     DealUpdate_status sample_close_patch = Some CLOSED \<and>
     ''offer_price'' \<notin> DealUpdate_fields_set sample_close_patch"
    by (simp add: sample_db_def sample_deal_def sample_close_patch_def query_first_def)
  with update_deal_leaves_property [of sample_db 1 sample_close_patch sample_deal]
  show ?thesis by blast
qed

section \<open>Properties of the aggregate reports\<close>

lemma days_before_error:
  "days_before t n = Inl e \<Longrightarrow> e = OverflowError"
  by (auto simp: days_before_def timedelta_days_def datetime_sub_def Let_def split: if_splits)

lemma days_before_ok:
  assumes "0 \<le> n" and "n * microseconds_per_day \<le> t" and "t < datetime_end"
  shows "days_before t n = Inr (t - n * microseconds_per_day)"
proof -
  have day: "0 < microseconds_per_day"
    by (simp add: microseconds_per_day_def)
  from assms have "n * microseconds_per_day < 3652059 * microseconds_per_day"
    by (simp add: datetime_end_def)
  with day have "n < 3652059"
    by simp
  with assms(1) have small: "\<not> \<bar>n\<bar> > 999999999"
    by simp
  from assms(1) day have "0 \<le> n * microseconds_per_day"
    by simp
  with assms small show ?thesis
    by (simp add: days_before_def timedelta_days_def datetime_sub_def Let_def)
qed

lemma days_before_underflow:
  assumes "t < n * microseconds_per_day"
  shows "days_before t n = Inl OverflowError"
  using assms
  by (simp add: days_before_def timedelta_days_def datetime_sub_def Let_def)

lemma sum_list_non_null:
  "sum_list (non_null vs) = sum_list (map (\<lambda>v. case v of None \<Rightarrow> 0 | Some x \<Rightarrow> x) vs)"
  by (induction vs) (auto split: option.splits)

lemma scalar_or_0_sql_sum:
  "scalar_or_0 (sql_sum vs) = sum_list (map (\<lambda>v. case v of None \<Rightarrow> 0 | Some x \<Rightarrow> x) vs)"
proof -
  have eq: "sum_list (map (\<lambda>v. case v of None \<Rightarrow> 0 | Some x \<Rightarrow> x) vs) = sum_list (non_null vs)"
    by (simp add: sum_list_non_null)
  show ?thesis
    unfolding eq by (cases "non_null vs") (simp_all add: scalar_or_0_def sql_sum_def)
qed

lemma scalar_or_0_no_rows:
  "scalar_or_0 (sql_sum []) = 0"
  by (simp add: scalar_or_0_def sql_sum_def)

lemma monthly_revenue_loop_ok:
  assumes "\<forall>i \<in> set is.
      days_before (utcnow (2 * i)) (30 * (int i + 1)) = Inr (S i) \<and>
      days_before (utcnow (2 * i + 1)) (30 * int i) = Inr (E i)"
  shows "monthly_revenue_loop strftime utcnow db is acc =
     Inr (acc @
          map (\<lambda>i. \<lparr>month = strftime (S i),
                     revenue =
                       scalar_or_0
                         (sql_sum
                            (map Deal_net_profit
                               (filter
                                  (\<lambda>d. is_closed d \<and> created_since (S i) d \<and>
                                       created_before (E i) d)
                                  (db_deals db))))\<rparr>) is)"
  using assms
  by (induction "is" arbitrary: acc) (simp_all add: Let_def)

lemma monthly_revenue_loop_overflow:
  assumes "i \<in> set is"
    and "days_before (utcnow (2 * i)) (30 * (int i + 1)) = Inl OverflowError"
  shows "monthly_revenue_loop strftime utcnow db is acc = Inl OverflowError"
  using assms
proof (induction "is" arbitrary: acc)
  case Nil
  then show ?case by simp
next
  case (Cons j rest)
  show ?case
  proof (cases "days_before (utcnow (2 * j)) (30 * (int j + 1))")
    case (Inl e)
    then show ?thesis
      by (simp add: days_before_error)
  next
    case start: (Inr start_date)
    with Cons.prems have rest: "i \<in> set rest"
      by auto
    show ?thesis
    proof (cases "days_before (utcnow (2 * j + 1)) (30 * int j)")
      case (Inl e)
      with start show ?thesis
        by (simp add: days_before_error)
    next
      case (Inr end_date)
      with start Cons.IH [OF rest Cons.prems(2)] show ?thesis
        by (simp add: Let_def)
    qed
  qed
qed

lemma get_monthly_revenue_constant_clock:
  assumes clock: "\<forall>k. utcnow k = now"
    and lower: "30 * months * microseconds_per_day \<le> now"
    and upper: "now < datetime_end"
  shows "get_monthly_revenue strftime utcnow db months =
     (Inr (rev (map (\<lambda>i. \<lparr>month = strftime (now - 30 * (int i + 1) * microseconds_per_day),
                     revenue =
                       scalar_or_0
                         (sql_sum
                            (map Deal_net_profit
                               (filter
                                  (\<lambda>d. is_closed d \<and>
                                       created_since
                                         (now - 30 * (int i + 1) * microseconds_per_day) d \<and>
                                       created_before
                                         (now - 30 * int i * microseconds_per_day) d)
                                  (db_deals db))))\<rparr>) [0..<nat months])), db)"
proof -
  have day: "0 < microseconds_per_day"
    by (simp add: microseconds_per_day_def)
  have bounds: "\<forall>i \<in> set [0..<nat months].
      days_before (utcnow (2 * i)) (30 * (int i + 1)) =
        Inr (now - 30 * (int i + 1) * microseconds_per_day) \<and>
      days_before (utcnow (2 * i + 1)) (30 * int i) =
        Inr (now - 30 * int i * microseconds_per_day)"
  proof
    fix i assume "i \<in> set [0..<nat months]"
    then have "int i + 1 \<le> months"
      by simp
    with day have "30 * (int i + 1) * microseconds_per_day \<le> 30 * months * microseconds_per_day"
      by simp
    with lower have start: "30 * (int i + 1) * microseconds_per_day \<le> now"
      by simp
    have "30 * int i * microseconds_per_day \<le> 30 * (int i + 1) * microseconds_per_day"
      using day by simp
    with start have end_ok: "30 * int i * microseconds_per_day \<le> now"
      by simp
    from start upper have "days_before now (30 * (int i + 1)) =
        Inr (now - 30 * (int i + 1) * microseconds_per_day)"
      by (intro days_before_ok) simp_all
    moreover from end_ok upper have "days_before now (30 * int i) =
        Inr (now - 30 * int i * microseconds_per_day)"
      by (intro days_before_ok) simp_all
    ultimately show "days_before (utcnow (2 * i)) (30 * (int i + 1)) =
        Inr (now - 30 * (int i + 1) * microseconds_per_day) \<and>
      days_before (utcnow (2 * i + 1)) (30 * int i) =
        Inr (now - 30 * int i * microseconds_per_day)"
      using clock by simp
  qed
  show ?thesis
    by (simp only: get_monthly_revenue_def monthly_revenue_loop_ok [OF bounds] sum.case
        append_Nil)
qed

lemma get_monthly_revenue_readings:
  assumes range: "\<forall>k < 2 * nat months.
      30 * months * microseconds_per_day \<le> utcnow k \<and> utcnow k < datetime_end"
  shows "get_monthly_revenue strftime utcnow db months =
     (Inr (rev (map (\<lambda>i. \<lparr>month =
                       strftime (utcnow (2 * i) - 30 * (int i + 1) * microseconds_per_day),
                     revenue =
                       scalar_or_0
                         (sql_sum
                            (map Deal_net_profit
                               (filter
                                  (\<lambda>d. is_closed d \<and>
                                       created_since
                                         (utcnow (2 * i) -
                                          30 * (int i + 1) * microseconds_per_day) d \<and>
                                       created_before
                                         (utcnow (2 * i + 1) -
                                          30 * int i * microseconds_per_day) d)
                                  (db_deals db))))\<rparr>) [0..<nat months])), db)"
proof -
  have day: "0 < microseconds_per_day"
    by (simp add: microseconds_per_day_def)
  have bounds: "\<forall>i \<in> set [0..<nat months].
      days_before (utcnow (2 * i)) (30 * (int i + 1)) =
        Inr (utcnow (2 * i) - 30 * (int i + 1) * microseconds_per_day) \<and>
      days_before (utcnow (2 * i + 1)) (30 * int i) =
        Inr (utcnow (2 * i + 1) - 30 * int i * microseconds_per_day)"
  proof
    fix i assume "i \<in> set [0..<nat months]"
    then have i: "i < nat months"
      by simp
    then have "int i + 1 \<le> months"
      by simp
    with day have le: "30 * (int i + 1) * microseconds_per_day \<le>
        30 * months * microseconds_per_day"
      by simp
    have le': "30 * int i * microseconds_per_day \<le> 30 * (int i + 1) * microseconds_per_day"
      using day by simp
    from i have "2 * i < 2 * nat months" and "2 * i + 1 < 2 * nat months"
      by simp_all
    with range have first: "30 * months * microseconds_per_day \<le> utcnow (2 * i)"
        "utcnow (2 * i) < datetime_end"
      and second: "30 * months * microseconds_per_day \<le> utcnow (2 * i + 1)"
        "utcnow (2 * i + 1) < datetime_end"
      by blast+
    from first le have "days_before (utcnow (2 * i)) (30 * (int i + 1)) =
        Inr (utcnow (2 * i) - 30 * (int i + 1) * microseconds_per_day)"
      by (intro days_before_ok) simp_all
    moreover from second le le' have "days_before (utcnow (2 * i + 1)) (30 * int i) =
        Inr (utcnow (2 * i + 1) - 30 * int i * microseconds_per_day)"
      by (intro days_before_ok) simp_all
    ultimately show "days_before (utcnow (2 * i)) (30 * (int i + 1)) =
        Inr (utcnow (2 * i) - 30 * (int i + 1) * microseconds_per_day) \<and>
      days_before (utcnow (2 * i + 1)) (30 * int i) =
        Inr (utcnow (2 * i + 1) - 30 * int i * microseconds_per_day)"
      by simp
  qed
  show ?thesis
    by (simp only: get_monthly_revenue_def monthly_revenue_loop_ok [OF bounds] sum.case
        append_Nil)
qed

lemma get_monthly_revenue_overflow:
  assumes clock: "\<forall>k. utcnow k = now"
    and index: "i < nat months"
    and early: "now < 30 * (int i + 1) * microseconds_per_day"
  shows "get_monthly_revenue strftime utcnow db months = (Inl OverflowError, db)"
proof -
  from index have "i \<in> set [0..<nat months]"
    by simp
  moreover from early clock
  have "days_before (utcnow (2 * i)) (30 * (int i + 1)) = Inl OverflowError"
    by (simp add: days_before_underflow)
  ultimately have "monthly_revenue_loop strftime utcnow db [0..<nat months] [] = Inl OverflowError"
    by (rule monthly_revenue_loop_overflow)
  then show ?thesis
    by (simp add: get_monthly_revenue_def)
qed

lemma window_revenue:
  "scalar_or_0
     (sql_sum
        (map Deal_net_profit
           (filter (\<lambda>d. is_closed d \<and> created_since a d \<and> created_before b d) rows))) =
   sum_list
     (map (\<lambda>d. case Deal_net_profit d of None \<Rightarrow> 0 | Some x \<Rightarrow> x)
        (filter
           (\<lambda>d. Deal_status d = Some CLOSED \<and>
                (case Deal_created_at d of None \<Rightarrow> False | Some t \<Rightarrow> a \<le> t \<and> t < b))
           rows))"
proof -
  have same: "(\<lambda>d. is_closed d \<and> created_since a d \<and> created_before b d) =
      (\<lambda>d. Deal_status d = Some CLOSED \<and>
           (case Deal_created_at d of None \<Rightarrow> False | Some t \<Rightarrow> a \<le> t \<and> t < b))"
    by (auto simp: is_closed_def created_since_def created_before_def fun_eq_iff
        split: option.splits)
  show ?thesis
    by (simp add: scalar_or_0_sql_sum same comp_def)
qed

text \<open>
  C6, as the specification states it, fails in three ways. On 2026-11-03 a request for
  30000 months reaches, in iteration 24664, a window start 739950 days back, before
  0001-01-01; the subtraction raises \<open>OverflowError\<close> and no sequence is returned. With
  a clock that advances between the two readings of an iteration, the windows of
  adjacent entries overlap: the one closed deal of the sample store, worth 15000, is
  counted in both entries of a request for 2 months. And the oldest entry of a request
  for 12504 months starts on 0999-10-18, whose label is \<open>999-10\<close>, not of the form
  \<open>YYYY-MM\<close>.
\<close>

theorem monthly_revenue_series_counterexample:
  "get_monthly_revenue strftime_Ym sample_clock sample_db 30000 =
     (Inl OverflowError, sample_db) \<and>
   get_monthly_revenue strftime_Ym sample_ticking_clock sample_overlap_db 2 =
     (Inr [\<lparr>month = ''2026-09'', revenue = 15000\<rparr>, \<lparr>month = ''2026-10'', revenue = 15000\<rparr>],
      sample_overlap_db) \<and>
   map Deal_net_profit (db_deals sample_overlap_db) = [Some 15000] \<and>
   map_sum id (\<lambda>xs. month (hd xs))
     (fst (get_monthly_revenue strftime_Ym sample_clock sample_db 12504)) = Inr ''999-10''"
proof -
  have frozen: "\<forall>k. sample_clock k = sample_now"
    by (simp add: sample_clock_def)
  have overflow: "get_monthly_revenue strftime_Ym sample_clock sample_db 30000 =
     (Inl OverflowError, sample_db)"
  proof -
    have "(24664::nat) < nat 30000"
      by simp
    moreover have "sample_now < 30 * (int 24664 + 1) * microseconds_per_day"
      by (simp add: sample_now_def microseconds_per_day_def)
    ultimately show ?thesis
      using frozen by (intro get_monthly_revenue_overflow) blast+
  qed
  have two: "[0..<nat 2] = [0, 1]"
    by (simp add: upt_rec)
  have ticking: "\<forall>k < 2 * nat 2.
      30 * 2 * microseconds_per_day \<le> sample_ticking_clock k \<and>
      sample_ticking_clock k < datetime_end"
    by (simp add: sample_ticking_clock_def sample_now_def datetime_end_def
        microseconds_per_day_def)
  have twice: "get_monthly_revenue strftime_Ym sample_ticking_clock sample_overlap_db 2 =
     (Inr [\<lparr>month = ''2026-09'', revenue = 15000\<rparr>, \<lparr>month = ''2026-10'', revenue = 15000\<rparr>],
      sample_overlap_db)"
    unfolding get_monthly_revenue_readings [OF ticking] two
    by (simp add: sample_overlap_db_def sample_overlap_deal_def sample_ticking_clock_def
        sample_now_def microseconds_per_day_def is_closed_def created_since_def
        created_before_def scalar_or_0_def sql_sum_def strftime_Ym_def ord2ym_def Let_def
        DAYS_BEFORE_MONTH_def decimal_digit_def)
  have deals: "map Deal_net_profit (db_deals sample_overlap_db) = [Some 15000]"
    by (simp add: sample_overlap_db_def sample_overlap_deal_def)
  have label: "map_sum id (\<lambda>xs. month (hd xs))
     (fst (get_monthly_revenue strftime_Ym sample_clock sample_db 12504)) = Inr ''999-10''"
  proof -
    have lower: "30 * 12504 * microseconds_per_day \<le> sample_now"
      by (simp add: sample_now_def microseconds_per_day_def)
    have upper: "sample_now < datetime_end"
      by (simp add: sample_now_def datetime_end_def microseconds_per_day_def)
    have last_index: "last [0..<nat 12504] = 12503"
      by simp
    have nonempty: "[0..<nat 12504] \<noteq> []"
      by simp
    have oldest: "strftime_Ym (sample_now - 30 * (int 12503 + 1) * microseconds_per_day) =
        ''999-10''"
      by (simp add: sample_now_def microseconds_per_day_def strftime_Ym_def ord2ym_def Let_def
          DAYS_BEFORE_MONTH_def decimal_digit_def)
    show ?thesis
      unfolding get_monthly_revenue_constant_clock [OF frozen lower upper] fst_conv
        map_sum.simps hd_rev last_map [OF nonempty] last_index MonthlyRevenue.select_convs
        oldest
      by (rule refl)
  qed
  from overflow twice deals label show ?thesis
    by blast
qed

text \<open>
  C6 (amended): for every non-negative \<open>months\<close> such that every clock reading of the
  request lies at least \<open>30 * months\<close> days after 0001-01-01, the series has exactly
  \<open>months\<close> entries, oldest first: the entry \<open>i\<close> (counting back from now) stands at
  position \<open>months - 1 - i\<close> and covers the window from \<open>30 * (i + 1)\<close> days before the
  first clock reading of its iteration to \<open>30 * i\<close> days before the second one. Its
  revenue is the sum of the non-null \<open>net_profit\<close> of the closed deals whose
  \<open>created_at\<close> lies in that window, and its label is the formatter's output for the
  window start. The store is as it was.
\<close>

theorem monthly_revenue_series:
  assumes nonneg: "0 \<le> months"
    and range: "\<forall>k < 2 * nat months.
      30 * months * microseconds_per_day \<le> utcnow k \<and> utcnow k < datetime_end"
  shows "\<exists>xs. get_monthly_revenue strftime utcnow db months = (Inr xs, db) \<and>
      int (length xs) = months \<and>
      (\<forall>i < nat months.
         xs ! (nat months - 1 - i) =
           \<lparr>month = strftime (utcnow (2 * i) - 30 * (int i + 1) * microseconds_per_day),
            revenue =
              sum_list
                (map (\<lambda>d. case Deal_net_profit d of None \<Rightarrow> 0 | Some x \<Rightarrow> x)
                   (filter
                      (\<lambda>d. Deal_status d = Some CLOSED \<and>
                           (case Deal_created_at d of
                              None \<Rightarrow> False
                            | Some t \<Rightarrow>
                                utcnow (2 * i) - 30 * (int i + 1) * microseconds_per_day \<le> t \<and>
                                t < utcnow (2 * i + 1) - 30 * int i * microseconds_per_day))
                      (db_deals db)))\<rparr>)"
proof -
  let ?bucket = "\<lambda>i. \<lparr>month =
              strftime (utcnow (2 * i) - 30 * (int i + 1) * microseconds_per_day),
            revenue =
              sum_list
                (map (\<lambda>d. case Deal_net_profit d of None \<Rightarrow> 0 | Some x \<Rightarrow> x)
                   (filter
                      (\<lambda>d. Deal_status d = Some CLOSED \<and>
                           (case Deal_created_at d of
                              None \<Rightarrow> False
                            | Some t \<Rightarrow>
                                utcnow (2 * i) - 30 * (int i + 1) * microseconds_per_day \<le> t \<and>
                                t < utcnow (2 * i + 1) - 30 * int i * microseconds_per_day))
                      (db_deals db)))\<rparr>"
  let ?xs = "rev (map ?bucket [0..<nat months])"
  have result: "get_monthly_revenue strftime utcnow db months = (Inr ?xs, db)"
    by (simp only: get_monthly_revenue_readings [OF range] window_revenue)
  have len: "int (length ?xs) = months"
    using nonneg by simp
  have nth: "\<forall>i < nat months. ?xs ! (nat months - 1 - i) = ?bucket i"
  proof (intro allI impI)
    fix i assume i: "i < nat months"
    then have "nat months - 1 - i < length (map ?bucket [0..<nat months])"
      by simp
    then have "?xs ! (nat months - 1 - i) =
        map ?bucket [0..<nat months] ! (length (map ?bucket [0..<nat months]) - Suc (nat months - 1 - i))"
      by (rule rev_nth)
    also from i have "length (map ?bucket [0..<nat months]) - Suc (nat months - 1 - i) = i"
      by simp
    also have "map ?bucket [0..<nat months] ! i = ?bucket i"
    proof -
      from i have idx: "[0..<nat months] ! i = i"
        by simp
      from i have "map ?bucket [0..<nat months] ! i = ?bucket ([0..<nat months] ! i)"
        by (intro nth_map) simp
      then show ?thesis
        unfolding idx .
    qed
    finally show "?xs ! (nat months - 1 - i) = ?bucket i" .
  qed
  from result len nth show ?thesis
    by blast
qed

theorem monthly_revenue_series_witness:
  "0 \<le> (2::int) \<and>
   30 * 2 * microseconds_per_day \<le> sample_ticking_clock 0 \<and>
   sample_ticking_clock 3 < datetime_end \<and>
   (\<exists>xs. get_monthly_revenue strftime_Ym sample_ticking_clock sample_closed_db 2 =
           (Inr xs, sample_closed_db) \<and>
         int (length xs) = 2 \<and>
         xs ! 0 = \<lparr>month = ''2026-09'', revenue = 0\<rparr> \<and>
         xs ! 1 = \<lparr>month = ''2026-10'', revenue = 15000\<rparr>)"
proof -
  have nonneg: "0 \<le> (2::int)"
    by simp
  have range: "\<forall>k < 2 * nat 2.
      30 * 2 * microseconds_per_day \<le> sample_ticking_clock k \<and>
      sample_ticking_clock k < datetime_end"
    by (simp add: sample_ticking_clock_def sample_now_def datetime_end_def
        microseconds_per_day_def)
  from monthly_revenue_series [OF nonneg range, of strftime_Ym sample_closed_db]
  obtain xs where result:
      "get_monthly_revenue strftime_Ym sample_ticking_clock sample_closed_db 2 =
         (Inr xs, sample_closed_db)"
    and len: "int (length xs) = 2"
    and nth: "\<forall>i < nat 2.
         xs ! (nat 2 - 1 - i) =
           \<lparr>month =
              strftime_Ym
                (sample_ticking_clock (2 * i) - 30 * (int i + 1) * microseconds_per_day),
            revenue =
              sum_list
                (map (\<lambda>d. case Deal_net_profit d of None \<Rightarrow> 0 | Some x \<Rightarrow> x)
                   (filter
                      (\<lambda>d. Deal_status d = Some CLOSED \<and>
                           (case Deal_created_at d of
                              None \<Rightarrow> False
                            | Some t \<Rightarrow>
                                sample_ticking_clock (2 * i) -
                                30 * (int i + 1) * microseconds_per_day \<le> t \<and>
                                t < sample_ticking_clock (2 * i + 1) -
                                    30 * int i * microseconds_per_day))
                      (db_deals sample_closed_db)))\<rparr>"
    by blast
  from nth [rule_format, of 1] have older: "xs ! 0 = \<lparr>month = ''2026-09'', revenue = 0\<rparr>"
    by (simp add: sample_closed_db_def sample_deal_def sample_closed_deal_def
        sample_ticking_clock_def sample_now_def microseconds_per_day_def strftime_Ym_def
        ord2ym_def Let_def DAYS_BEFORE_MONTH_def decimal_digit_def)
  from nth [rule_format, of 0] have newer: "xs ! 1 = \<lparr>month = ''2026-10'', revenue = 15000\<rparr>"
    by (simp add: sample_closed_db_def sample_deal_def sample_closed_deal_def
        sample_ticking_clock_def sample_now_def microseconds_per_day_def strftime_Ym_def
        ord2ym_def Let_def DAYS_BEFORE_MONTH_def decimal_digit_def)
  have first_reading: "30 * 2 * microseconds_per_day \<le> sample_ticking_clock 0"
    and last_reading: "sample_ticking_clock 3 < datetime_end"
    by (simp_all add: sample_ticking_clock_def sample_now_def datetime_end_def
        microseconds_per_day_def)
  from nonneg first_reading last_reading result len older newer show ?thesis
    by blast
qed

lemma analytics_thirty_days_ago:
  assumes "30 * microseconds_per_day \<le> now" and "now < datetime_end"
  shows "days_before now 30 = Inr (now - 30 * microseconds_per_day)"
  using assms by (intro days_before_ok) simp_all

lemma total_revenue_query_no_rows:
  "filter is_closed (db_deals db) = [] \<Longrightarrow> total_revenue_query db = 0"
  by (simp add: total_revenue_query_def scalar_or_0_no_rows)

lemma revenue_since_query_no_rows:
  "filter (\<lambda>d. is_closed d \<and> created_since start d) (db_deals db) = [] \<Longrightarrow>
   revenue_since_query db start = 0"
  by (simp add: revenue_since_query_def scalar_or_0_no_rows)

lemma aggregates_read_only:
  "snd (get_deals_analytics now db) = db"
  "snd (get_dashboard_stats now db) = db"
  "snd (get_monthly_revenue strftime utcnow db months) = db"
  by (simp_all add: get_deals_analytics_def get_dashboard_stats_def get_monthly_revenue_def
      Let_def split: sum.splits)

text \<open>
  C7: every aggregate query leaves the store as it was; and each revenue aggregate
  (total revenue and last-30-days revenue of both summaries, and each monthly bucket)
  is 0 when no deal matches its filter. The summaries are stated for a clock reading
  at least 30 days after 0001-01-01, the monthly series for clock readings that are all
  the same instant, at least \<open>30 * months\<close> days after 0001-01-01.
\<close>

theorem revenue_aggregates_zero_and_read_only:
  "snd (get_deals_analytics now db) = db \<and>
   snd (get_dashboard_stats now db) = db \<and>
   snd (get_monthly_revenue strftime utcnow db months) = db \<and>
   (30 * microseconds_per_day \<le> now \<and> now < datetime_end \<longrightarrow>
      (\<exists>r. fst (get_deals_analytics now db) = Inr r \<and>
           (filter is_closed (db_deals db) = [] \<longrightarrow> DealsAnalytics_total_revenue r = 0) \<and>
           (filter (\<lambda>d. is_closed d \<and> created_since (now - 30 * microseconds_per_day) d)
              (db_deals db) = [] \<longrightarrow>
            DealsAnalytics_monthly_revenue r = 0)) \<and>
      (\<exists>r. fst (get_dashboard_stats now db) = Inr r \<and>
           (filter is_closed (db_deals db) = [] \<longrightarrow> DashboardStats_total_revenue r = 0) \<and>
           (filter (\<lambda>d. is_closed d \<and> created_since (now - 30 * microseconds_per_day) d)
              (db_deals db) = [] \<longrightarrow>
            DashboardStats_monthly_revenue r = 0))) \<and>
   ((\<forall>k. utcnow k = now) \<and> 30 * months * microseconds_per_day \<le> now \<and>
    now < datetime_end \<longrightarrow>
      (\<exists>xs. fst (get_monthly_revenue strftime utcnow db months) = Inr xs \<and>
            length xs = nat months \<and>
            (\<forall>i < nat months.
               filter
                 (\<lambda>d. is_closed d \<and>
                      created_since (now - 30 * (int i + 1) * microseconds_per_day) d \<and>
                      created_before (now - 30 * int i * microseconds_per_day) d)
                 (db_deals db) = [] \<longrightarrow>
               revenue (xs ! (nat months - 1 - i)) = 0)))"
proof (intro conjI impI)
  show "snd (get_deals_analytics now db) = db"
    and "snd (get_dashboard_stats now db) = db"
    and "snd (get_monthly_revenue strftime utcnow db months) = db"
    by (rule aggregates_read_only)+
next
  assume "30 * microseconds_per_day \<le> now \<and> now < datetime_end"
  then have ago: "days_before now 30 = Inr (now - 30 * microseconds_per_day)"
    by (simp add: analytics_thirty_days_ago)
  show "\<exists>r. fst (get_deals_analytics now db) = Inr r \<and>
           (filter is_closed (db_deals db) = [] \<longrightarrow> DealsAnalytics_total_revenue r = 0) \<and>
           (filter (\<lambda>d. is_closed d \<and> created_since (now - 30 * microseconds_per_day) d)
              (db_deals db) = [] \<longrightarrow>
            DealsAnalytics_monthly_revenue r = 0)"
    by (simp add: get_deals_analytics_def Let_def ago total_revenue_query_no_rows
        revenue_since_query_no_rows)
  show "\<exists>r. fst (get_dashboard_stats now db) = Inr r \<and>
           (filter is_closed (db_deals db) = [] \<longrightarrow> DashboardStats_total_revenue r = 0) \<and>
           (filter (\<lambda>d. is_closed d \<and> created_since (now - 30 * microseconds_per_day) d)
              (db_deals db) = [] \<longrightarrow>
            DashboardStats_monthly_revenue r = 0)"
    by (simp add: get_dashboard_stats_def Let_def ago total_revenue_query_no_rows
        revenue_since_query_no_rows)
next
  let ?window = "\<lambda>i d. is_closed d \<and>
      created_since (now - 30 * (int i + 1) * microseconds_per_day) d \<and>
      created_before (now - 30 * int i * microseconds_per_day) d"
  let ?bucket = "\<lambda>i. \<lparr>month = strftime (now - 30 * (int i + 1) * microseconds_per_day),
      revenue =
        scalar_or_0 (sql_sum (map Deal_net_profit (filter (?window i) (db_deals db))))\<rparr>"
  let ?xs = "rev (map ?bucket [0..<nat months])"
  assume h: "(\<forall>k. utcnow k = now) \<and> 30 * months * microseconds_per_day \<le> now \<and>
    now < datetime_end"
  then have result: "get_monthly_revenue strftime utcnow db months = (Inr ?xs, db)"
    by (intro get_monthly_revenue_constant_clock) simp_all
  have len: "length ?xs = nat months"
    by simp
  have zero: "\<forall>i < nat months.
      filter (?window i) (db_deals db) = [] \<longrightarrow> revenue (?xs ! (nat months - 1 - i)) = 0"
  proof (intro allI impI)
    fix i assume i: "i < nat months" and none: "filter (?window i) (db_deals db) = []"
    from i have idx: "[0..<nat months] ! i = i"
      by simp
    from i have "nat months - 1 - i < length (map ?bucket [0..<nat months])"
      by simp
    then have "?xs ! (nat months - 1 - i) =
        map ?bucket [0..<nat months] ! (length (map ?bucket [0..<nat months]) - Suc (nat months - 1 - i))"
      by (rule rev_nth)
    also from i have "length (map ?bucket [0..<nat months]) - Suc (nat months - 1 - i) = i"
      by simp
    also from i have "map ?bucket [0..<nat months] ! i = ?bucket ([0..<nat months] ! i)"
      by (intro nth_map) simp
    finally have "?xs ! (nat months - 1 - i) = ?bucket i"
      unfolding idx .
    then have "revenue (?xs ! (nat months - 1 - i)) =
        scalar_or_0 (sql_sum (map Deal_net_profit (filter (?window i) (db_deals db))))"
      by (simp only: MonthlyRevenue.simps)
    with none show "revenue (?xs ! (nat months - 1 - i)) = 0"
      by (simp add: scalar_or_0_no_rows)
  qed
  from result len zero
  show "\<exists>xs. fst (get_monthly_revenue strftime utcnow db months) = Inr xs \<and>
            length xs = nat months \<and>
            (\<forall>i < nat months.
               filter (?window i) (db_deals db) = [] \<longrightarrow>
               revenue (xs ! (nat months - 1 - i)) = 0)"
    by (intro exI [of _ ?xs]) simp
qed

theorem revenue_aggregates_zero_and_read_only_witness:
  "30 * microseconds_per_day \<le> sample_now \<and> sample_now < datetime_end \<and>
   (\<forall>k. sample_clock k = sample_now) \<and> 30 * 2 * microseconds_per_day \<le> sample_now \<and>
   filter is_closed (db_deals sample_db) = [] \<and>
   snd (get_deals_analytics sample_now sample_db) = sample_db \<and>
   snd (get_dashboard_stats sample_now sample_db) = sample_db \<and>
   snd (get_monthly_revenue strftime_Ym sample_clock sample_db 2) = sample_db \<and>
   (\<exists>r. fst (get_deals_analytics sample_now sample_db) = Inr r \<and>
        DealsAnalytics_total_revenue r = 0 \<and> DealsAnalytics_monthly_revenue r = 0) \<and>
   (\<exists>r. fst (get_dashboard_stats sample_now sample_db) = Inr r \<and>
        DashboardStats_total_revenue r = 0 \<and> DashboardStats_monthly_revenue r = 0) \<and>
   (\<exists>xs. fst (get_monthly_revenue strftime_Ym sample_clock sample_db 2) = Inr xs \<and>
         length xs = 2 \<and> revenue (xs ! 0) = 0 \<and> revenue (xs ! 1) = 0)"
proof -
  note inst = revenue_aggregates_zero_and_read_only
      [of sample_now sample_db strftime_Ym sample_clock 2]
  have month_ago: "30 * microseconds_per_day \<le> sample_now"
    by (simp add: sample_now_def microseconds_per_day_def)
  have upper: "sample_now < datetime_end"
    by (simp add: sample_now_def datetime_end_def microseconds_per_day_def)
  have clock: "\<forall>k. sample_clock k = sample_now"
    by (simp add: sample_clock_def)
  have lower: "30 * 2 * microseconds_per_day \<le> sample_now"
    by (simp add: sample_now_def microseconds_per_day_def)
  have none: "filter is_closed (db_deals sample_db) = []"
    by (simp add: sample_db_def sample_deal_def is_closed_def)
  have none_with: "filter (\<lambda>d. is_closed d \<and> P d) (db_deals sample_db) = []" for P
    by (simp add: sample_db_def sample_deal_def is_closed_def)
  from inst have store:
    "snd (get_deals_analytics sample_now sample_db) = sample_db"
    "snd (get_dashboard_stats sample_now sample_db) = sample_db"
    "snd (get_monthly_revenue strftime_Ym sample_clock sample_db 2) = sample_db"
    by blast+
  from inst month_ago upper none none_with
  have analytics: "\<exists>r. fst (get_deals_analytics sample_now sample_db) = Inr r \<and>
        DealsAnalytics_total_revenue r = 0 \<and> DealsAnalytics_monthly_revenue r = 0"
    by blast
  from inst month_ago upper none none_with
  have dashboard: "\<exists>r. fst (get_dashboard_stats sample_now sample_db) = Inr r \<and>
        DashboardStats_total_revenue r = 0 \<and> DashboardStats_monthly_revenue r = 0"
    by blast
  from inst clock lower upper
  obtain xs where xs: "fst (get_monthly_revenue strftime_Ym sample_clock sample_db 2) = Inr xs"
    and len: "length xs = nat 2"
    and zero: "\<forall>i < nat 2.
       filter
         (\<lambda>d. is_closed d \<and>
              created_since (sample_now - 30 * (int i + 1) * microseconds_per_day) d \<and>
              created_before (sample_now - 30 * int i * microseconds_per_day) d)
         (db_deals sample_db) = [] \<longrightarrow>
       revenue (xs ! (nat 2 - 1 - i)) = 0"
    by blast
  from zero [rule_format, of 1] none_with have first: "revenue (xs ! 0) = 0"
    by simp
  from zero [rule_format, of 0] none_with have second: "revenue (xs ! 1) = 0"
    by simp
  from len have len2: "length xs = 2"
    by simp
  from month_ago upper clock lower none store analytics dashboard xs len2 first second
  show ?thesis
    by blast
qed

end
